theory Spec2Isabelle
  imports Main "HOL-Library.Word"
begin

section \<open>Byte strings and hexadecimal text\<close>

text \<open>
  The EVM context works on two representations of binary data: byte arrays
  (\<^verbatim>\<open>Uint8Array\<close>, \<^verbatim>\<open>Buffer\<close>) and hexadecimal text with the
  prefix \<^verbatim>\<open>0x\<close>. The conversions below are the ones of the \<^verbatim>\<open>ethers\<close> utilities
  that \<^verbatim>\<open>formatAddress\<close> and \<^verbatim>\<open>parseAddress\<close> call: \<^verbatim>\<open>hexlify\<close>,
  \<^verbatim>\<open>arrayify\<close>, \<^verbatim>\<open>zeroPad\<close>, \<^verbatim>\<open>stripZeros\<close> and \<^verbatim>\<open>getAddress\<close>.
\<close>

type_synonym byte = "8 word"
type_synonym bytes = "byte list"

text \<open>A chain is referred to by its name or by its numeric id.\<close>

datatype chain_ref = ChainName string | ChainId nat

text \<open>
  Every \<^verbatim>\<open>throw\<close> of the source and every failure of a collaborator is a value:
  the three errors the EVM context raises itself, the receipt error, the argument
  errors of the \<^verbatim>\<open>ethers\<close> utilities, and whatever a contract call, a provider or
  another chain context raises (passed on unchanged).
\<close>

datatype error =
    NoSigner chain_ref
  | TokenNotRegistered
  | TokenContractNotAvailable string
  | NoReceipt string chain_ref
  | LibraryError string
  | External string

definition hex_char :: "nat \<Rightarrow> char" where
  "hex_char n = ''0123456789abcdef'' ! n"

definition hex_val :: "char \<Rightarrow> nat option" where
  "hex_val c =
     (if c \<in> set ''0123456789'' then Some (of_char c - 48)
      else if c \<in> set ''abcdef'' then Some (of_char c - 87)
      else if c \<in> set ''ABCDEF'' then Some (of_char c - 55)
      else None)"

definition is_hex_digit :: "char \<Rightarrow> bool" where
  "is_hex_digit c = (hex_val c \<noteq> None)"

definition byte_hex :: "byte \<Rightarrow> string" where
  "byte_hex b = [hex_char (unat b div 16), hex_char (unat b mod 16)]"

text \<open>\<^verbatim>\<open>utils.hexlify\<close> on a byte array: \<^verbatim>\<open>0x\<close> and two lower-case digits per byte.\<close>

definition hexlify :: "bytes \<Rightarrow> string" where
  "hexlify bs = ''0x'' @ concat (map byte_hex bs)"

fun hex_pairs :: "string \<Rightarrow> bytes option" where
  "hex_pairs [] = Some []"
| "hex_pairs [c] = None"
| "hex_pairs (c # d # rest) =
     (case (hex_val c, hex_val d, hex_pairs rest) of
        (Some h, Some l, Some bs) \<Rightarrow> Some (of_nat (16 * h + l) # bs)
      | _ \<Rightarrow> None)"

text \<open>
  A \<^verbatim>\<open>BytesLike\<close> argument is a byte array or hexadecimal text. \<^verbatim>\<open>utils.arrayify\<close>
  returns a byte array as it is; text must match \<^verbatim>\<open>/^0x[0-9A-Fa-f]*$/\<close> and
  have an even number of digits, else \<^verbatim>\<open>arrayify\<close> throws.
\<close>

datatype bytes_like = Bytes bytes | Hex string

definition is_hex_string :: "string \<Rightarrow> bool" where
  "is_hex_string s = (take 2 s = ''0x'' \<and> list_all is_hex_digit (drop 2 s))"

definition arrayify :: "bytes_like \<Rightarrow> error + bytes" where
  "arrayify v =
     (case v of
        Bytes bs \<Rightarrow> Inr bs
      | Hex s \<Rightarrow>
          if \<not> is_hex_string s then Inl (LibraryError ''invalid arrayify value'')
          else (case hex_pairs (drop 2 s) of
                  None \<Rightarrow> Inl (LibraryError ''hex data is odd-length'')
                | Some bs \<Rightarrow> Inr bs))"

text \<open>\<^verbatim>\<open>utils.zeroPad(value, length)\<close>: left-pads with zero bytes; throws when the value is longer.\<close>

definition zeroPad :: "bytes_like \<Rightarrow> nat \<Rightarrow> error + bytes" where
  "zeroPad v n =
     (case arrayify v of
        Inl e \<Rightarrow> Inl e
      | Inr bs \<Rightarrow>
          if length bs > n then Inl (LibraryError ''value out of range'')
          else Inr (replicate (n - length bs) 0 @ bs))"

text \<open>\<^verbatim>\<open>utils.stripZeros(value)\<close>: drops every leading zero byte.\<close>

definition stripZeros :: "bytes_like \<Rightarrow> error + bytes" where
  "stripZeros v =
     (case arrayify v of
        Inl e \<Rightarrow> Inl e
      | Inr bs \<Rightarrow> Inr (dropWhile (\<lambda>b. b = 0) bs))"

text \<open>
  \<^verbatim>\<open>utils.getAddress(address)\<close>. Text matching \<^verbatim>\<open>/^(0x)?[0-9a-fA-F]{40}$/\<close> is
  given its prefix and its checksum casing; text of mixed case whose casing is not
  the checksum's is refused. Text in the ICAP format is converted. Anything else is
  an invalid address. The checksum casing (a Keccak-256 hash decides each letter's
  case) and the ICAP conversion are functions of the library, taken as parameters.
\<close>

record address_lib =
  getChecksumAddress :: "string \<Rightarrow> string"
  icapAddress :: "string \<Rightarrow> error + string"

definition is_address_text :: "string \<Rightarrow> bool" where
  "is_address_text s =
     (let digits = (if take 2 s = ''0x'' then drop 2 s else s)
      in length digits = 40 \<and> list_all is_hex_digit digits)"

definition is_mixed_case :: "string \<Rightarrow> bool" where
  "is_mixed_case s = (list_ex (\<lambda>c. c \<in> set ''ABCDEF'') s \<and> list_ex (\<lambda>c. c \<in> set ''abcdef'') s)"

definition is_alnum :: "char \<Rightarrow> bool" where
  "is_alnum c =
     (let n = (of_char c :: nat)
      in (48 \<le> n \<and> n \<le> 57) \<or> (65 \<le> n \<and> n \<le> 90) \<or> (97 \<le> n \<and> n \<le> 122))"

definition is_icap_text :: "string \<Rightarrow> bool" where
  "is_icap_text s =
     (take 2 s = ''XE'' \<and> (length s = 34 \<or> length s = 35)
      \<and> list_all (\<lambda>c. c \<in> set ''0123456789'') (take 2 (drop 2 s))
      \<and> list_all is_alnum (drop 4 s))"

definition getAddress :: "address_lib \<Rightarrow> string \<Rightarrow> error + string" where
  "getAddress lib address =
     (if is_address_text address then
        (let a = (if take 2 address \<noteq> ''0x'' then ''0x'' @ address else address);
             result = getChecksumAddress lib a
         in if is_mixed_case a \<and> result \<noteq> a
            then Inl (LibraryError ''bad address checksum'')
            else Inr result)
      else if is_icap_text address then icapAddress lib address
      else Inl (LibraryError ''invalid address''))"

subsection \<open>The address codec of the EVM context\<close>

text \<open>
  \<^verbatim>\<open>formatAddress(address) = Buffer.from(utils.zeroPad(address, 32))\<close> and
  \<^verbatim>\<open>parseAddress(address) = utils.getAddress(utils.hexlify(utils.stripZeros(address)))\<close>.
\<close>

definition formatAddress :: "string \<Rightarrow> error + bytes" where
  "formatAddress address = zeroPad (Hex address) 32"

definition parseAddress :: "address_lib \<Rightarrow> bytes_like \<Rightarrow> error + string" where
  "parseAddress lib address =
     (case stripZeros address of
        Inl e \<Rightarrow> Inl e
      | Inr bs \<Rightarrow> getAddress lib (hexlify bs))"


section \<open>Values of the SDK\<close>

text \<open>
  A \<^verbatim>\<open>BigNumber\<close> object of \<^verbatim>\<open>ethers\<close> stands for an integer of any size and
  keeps it as hexadecimal text. \<^verbatim>\<open>BigNumber.from\<close> accepts text with the prefix
  \<^verbatim>\<open>0X\<close> as hexadecimal, but its normalisation (\<^verbatim>\<open>toHex\<close>) knows the prefix
  \<^verbatim>\<open>0x\<close> only and puts a second prefix before the text; the object it builds
  then holds no number (\<open>BrokenBN\<close>, with the text it was built from). Building
  it raises nothing; reading its value, as every comparison and every encoding
  does, throws.

  A \<^verbatim>\<open>BigNumberish\<close> argument is a \<^verbatim>\<open>BigNumber\<close> object, a JavaScript number
  (here: an integral one), a \<^verbatim>\<open>bigint\<close>, text, or a byte array. JavaScript's
  \<^verbatim>\<open>||\<close> and \<^verbatim>\<open>!\<close> read a value as a boolean: an object is always true, the
  number and the bigint zero and the empty text are false.
\<close>

datatype big_number = BN int | BrokenBN string

datatype big_numberish =
    BigNumberV big_number
  | NumberV int
  | BigIntV int
  | StringV string
  | BytesV bytes

definition truthy :: "big_numberish \<Rightarrow> bool" where
  "truthy v =
     (case v of
        BigNumberV _ \<Rightarrow> True
      | NumberV n \<Rightarrow> n \<noteq> 0
      | BigIntV n \<Rightarrow> n \<noteq> 0
      | StringV s \<Rightarrow> s \<noteq> []
      | BytesV _ \<Rightarrow> True)"

definition digits_value :: "int \<Rightarrow> string \<Rightarrow> int" where
  "digits_value base ds = foldl (\<lambda>acc c. base * acc + int (the (hex_val c))) 0 ds"

text \<open>
  \<^verbatim>\<open>BigNumber.from\<close> on text: text matching \<^verbatim>\<open>/^-?0x[0-9a-f]+$/i\<close> is taken
  as hexadecimal (with the prefix \<^verbatim>\<open>0X\<close> the object is a broken one), text
  matching \<^verbatim>\<open>/^-?[0-9]+$/\<close> as decimal, anything else throws.
\<close>

definition BigNumber_from_string :: "string \<Rightarrow> error + big_number" where
  "BigNumber_from_string s =
     (let neg = (take 1 s = ''-'');
          body = (if neg then drop 1 s else s);
          sign = (if neg then - 1 else 1)
      in if (take 2 body = ''0x'' \<or> take 2 body = ''0X'') \<and> drop 2 body \<noteq> []
            \<and> list_all is_hex_digit (drop 2 body)
         then (if take 2 body = ''0x'' then Inr (BN (sign * digits_value 16 (drop 2 body)))
               else Inr (BrokenBN s))
         else if body \<noteq> [] \<and> list_all (\<lambda>c. c \<in> set ''0123456789'') body
         then Inr (BN (sign * digits_value 10 body))
         else Inl (LibraryError ''invalid BigNumber string''))"

definition MAX_SAFE :: int where
  "MAX_SAFE = 9007199254740991"

definition BigNumber_from :: "big_numberish \<Rightarrow> error + big_number" where
  "BigNumber_from v =
     (case v of
        BigNumberV b \<Rightarrow> Inr b
      | NumberV n \<Rightarrow>
          if n \<ge> MAX_SAFE \<or> n \<le> - MAX_SAFE then Inl (LibraryError ''overflow'') else Inr (BN n)
      | BigIntV n \<Rightarrow> Inr (BN n)
      | StringV s \<Rightarrow> BigNumber_from_string s
      | BytesV bs \<Rightarrow> BigNumber_from_string (hexlify bs))"

text \<open>
  \<^verbatim>\<open>toBN(value)\<close>, the number a comparison such as \<^verbatim>\<open>a.lt(value)\<close> reads from
  its argument: \<^verbatim>\<open>BigNumber.from(value)\<close>, then the digits of its text; the
  digits of a broken object are refused.
\<close>

definition toBN :: "big_numberish \<Rightarrow> error + int" where
  "toBN v =
     (case BigNumber_from v of
        Inl e \<Rightarrow> Inl e
      | Inr (BN n) \<Rightarrow> Inr n
      | Inr (BrokenBN s) \<Rightarrow> Inl (LibraryError ''Invalid character''))"

definition MaxUint256 :: int where
  "MaxUint256 = 2 ^ 256 - 1"

definition AddressZero :: string where
  "AddressZero = ''0x0000000000000000000000000000000000000000''"

text \<open>The token of a transfer: the sentinel \<^verbatim>\<open>'native'\<close> or a \<^verbatim>\<open>TokenId\<close>.\<close>

record token_id =
  tid_chain :: string
  tid_address :: string

datatype token = NATIVE | Token token_id

text \<open>The chain families of \<^verbatim>\<open>enum Context\<close>.\<close>

datatype context_kind =
  ETH | TERRA | INJECTIVE | XPLA | SOLANA | ALGORAND | NEAR | APTOS | SUI | SEI | OTHER

text \<open>
  Transaction overrides: the two entries the EVM context sets itself
  (\<^verbatim>\<open>from\<close>, \<^verbatim>\<open>value\<close>) and the caller's other entries, which it passes on.
\<close>

record overrides =
  ov_from :: "string option"
  ov_value :: "big_numberish option"
  ov_rest :: string

text \<open>
  The contract entry points the EVM context calls through \<^verbatim>\<open>callStatic\<close> (a dry
  run) and \<^verbatim>\<open>populateTransaction\<close> (the construction of the real transaction),
  with their arguments in the source's order:
  \<^item> \<open>WrapAndTransferETH recipientChain recipient relayerFee nonce\<close>;
  \<^item> \<open>TransferTokens token amount recipientChain recipient relayerFee nonce\<close>;
  \<^item> \<open>WrapAndTransferEthWithRelay toNativeTokenAmount recipientChain recipient batchId\<close>;
  \<^item> \<open>TransferTokensWithRelay token amount toNativeTokenAmount recipientChain recipient
    batchId\<close>;
  \<^item> \<open>CompleteTransfer signedVAA\<close>.
\<close>

datatype contract_call =
    WrapAndTransferETH nat bytes big_numberish nat
  | TransferTokens string big_number nat bytes big_numberish nat
  | WrapAndTransferEthWithRelay big_number nat bytes nat
  | TransferTokensWithRelay string big_number big_number nat bytes nat
  | CompleteTransfer bytes

record populated_tx =
  ptx_to :: string
  ptx_call :: contract_call
  ptx_overrides :: overrides

record log_entry =
  l_address :: string
  l_topics :: "string list"
  l_data :: string

record tx_receipt =
  r_from :: string
  r_blockNumber :: nat
  r_gasUsed :: "int option"
  r_effectiveGasPrice :: "int option"
  r_logs :: "log_entry list"

text \<open>
  What the collaborating decoders return: the arguments of a core-contract log
  (the payload as the bytes whose \<^verbatim>\<open>hexlify\<close> text \<^verbatim>\<open>parsed.args.payload\<close> is),
  the bridge contract's two transfer structures, and a relayer payload.
\<close>

record log_args =
  la_sequence :: int
  la_payload :: bytes

record transfer =
  t_payloadID :: nat
  t_amount :: int
  t_tokenAddress :: string
  t_tokenChain :: nat
  t_to :: string
  t_toChain :: nat

record transfer_with_payload = transfer +
  t_payload :: string

record relayer_payload =
  rp_relayerPayloadId :: nat
  rp_to :: string
  rp_relayerFee :: int
  rp_toNativeTokenAmount :: int

text \<open>\<^verbatim>\<open>ParsedMessage\<close>, and \<^verbatim>\<open>ParsedRelayerMessage = ParsedMessage & ParsedRelayerPayload\<close>.\<close>

record parsed_message =
  m_sendTx :: string
  m_sender :: string
  m_amount :: int
  m_payloadID :: nat
  m_recipient :: string
  m_toChain :: string
  m_fromChain :: string
  m_tokenAddress :: string
  m_tokenChain :: string
  m_tokenId :: token_id
  m_sequence :: int
  m_emitterAddress :: string
  m_block :: nat
  m_gasFee :: "int option"
  m_payload :: "string option"

record parsed_relayer_message = parsed_message +
  m_relayerPayloadId :: nat
  m_to :: string
  m_relayerFee :: int
  m_toNativeTokenAmount :: int

datatype any_message = PM parsed_message | PRM parsed_relayer_message

section \<open>Calls to collaborators\<close>

text \<open>
  Every asynchronous call the EVM context makes to a signer, a provider, a contract
  or another chain's context is an event. An invocation's trace lists its events
  in the order the calls were made, each with its outcome. The arguments of an
  event are those of the call, after the signer, the token, the contract (by its
  address) or the context it is made on:
  \<^item> \<open>SignerGetAddress signer\<close>, \<open>SendTransaction signer tx\<close>, and
    \<open>Wait hash\<close> for the \<^verbatim>\<open>wait()\<close> on a submitted transaction;
  \<^item> \<open>Allowance token owner spender\<close>, and
    \<open>Approve token signer spender amount overrides\<close>, the approval transaction;
  \<^item> \<open>WrappedAsset bridge chainId address\<close>, \<open>WETH bridge\<close>,
    \<open>ParseTransfer bridge payload\<close>, \<open>ParseTransferWithPayload bridge payload\<close>;
  \<^item> \<open>CallStatic contract call overrides\<close>, a dry run, and
    \<open>Populate contract call overrides\<close>, the construction of the transaction;
  \<^item> \<open>GetTransactionReceipt provider tx\<close>;
  \<^item> \<open>AssociatedTokenAddress context tokenId address\<close>,
    \<open>FormatAssetAddress context address\<close>, \<open>ParseAssetAddress context address\<close>.
\<close>

datatype event =
    SignerGetAddress string
  | Allowance string string string
  | Approve string string string big_numberish overrides
  | Wait string
  | WrappedAsset string nat bytes
  | WETH string
  | AssociatedTokenAddress context_kind token_id string
  | CallStatic string contract_call overrides
  | Populate string contract_call overrides
  | SendTransaction string populated_tx
  | GetTransactionReceipt string string
  | ParseTransfer string bytes
  | ParseTransferWithPayload string bytes
  | FormatAssetAddress context_kind string
  | ParseAssetAddress context_kind string

datatype outcome = Succeeded | Failed

type_synonym trace = "(event \<times> outcome) list"

definition outcome_of :: "error + 'a \<Rightarrow> outcome" where
  "outcome_of r = (case r of Inl e \<Rightarrow> Failed | Inr x \<Rightarrow> Succeeded)"

text \<open>
  A computation starts in a state of the outside world (the chains, the wallets,
  the random source) and ends with an error or a value, the world's new state and
  the trace of its calls.
\<close>

type_synonym ('w, 'a) io = "'w \<Rightarrow> (error + 'a) \<times> 'w \<times> trace"

definition io_return :: "'a \<Rightarrow> ('w, 'a) io" where
  "io_return x = (\<lambda>w. (Inr x, w, []))"

definition io_throw :: "error \<Rightarrow> ('w, 'a) io" where
  "io_throw e = (\<lambda>w. (Inl e, w, []))"

definition io_lift :: "error + 'a \<Rightarrow> ('w, 'a) io" where
  "io_lift r = (\<lambda>w. (r, w, []))"

definition io_bind :: "('w, 'a) io \<Rightarrow> ('a \<Rightarrow> ('w, 'b) io) \<Rightarrow> ('w, 'b) io" where
  "io_bind m f =
     (\<lambda>w. case m w of
        (Inl e, w1, evs) \<Rightarrow> (Inl e, w1, evs)
      | (Inr x, w1, evs) \<Rightarrow> (case f x w1 of (r, w2, evs2) \<Rightarrow> (r, w2, evs @ evs2)))"

definition io_call :: "event \<Rightarrow> ('w \<Rightarrow> (error + 'a) \<times> 'w) \<Rightarrow> ('w, 'a) io" where
  "io_call ev op =
     (\<lambda>w. case op w of
        (Inl e, w1) \<Rightarrow> (Inl e, w1, [(ev, Failed)])
      | (Inr x, w1) \<Rightarrow> (Inr x, w1, [(ev, Succeeded)]))"

text \<open>
  The environment of an \<^verbatim>\<open>EthContext\<close>: the \<^verbatim>\<open>WormholeContext\<close> it is built on,
  its \<^verbatim>\<open>EthContracts\<close>, the contexts of the other chain families and the
  libraries. The first group are lookups in the configuration: those the source
  types as returning a value are total, \<^verbatim>\<open>getSigner\<close> may return nothing, and the
  \<^verbatim>\<open>mustGet...\<close> lookups may throw. The second group are the asynchronous calls,
  each a transition of the world. \<^verbatim>\<open>createNonce\<close> draws a random nonce.
\<close>

record 'w env =
  toChainId :: "chain_ref \<Rightarrow> nat"
  toChainName :: "chain_ref \<Rightarrow> string"
  getContext :: "chain_ref \<Rightarrow> context_kind"
  getSigner :: "chain_ref \<Rightarrow> string option"
  mustGetProvider :: "chain_ref \<Rightarrow> error + string"
  mustGetCore :: "chain_ref \<Rightarrow> error + string"
  mustGetBridge :: "chain_ref \<Rightarrow> error + string"
  mustGetTokenBridgeRelayer :: "chain_ref \<Rightarrow> error + string"
  tokenContractAvailable :: "string \<Rightarrow> bool"
  addressLib :: address_lib
  core_parseLog :: "log_entry \<Rightarrow> error + log_args"
  other_formatAddress :: "context_kind \<Rightarrow> string \<Rightarrow> error + bytes"
  other_parseAddress :: "context_kind \<Rightarrow> bytes_like \<Rightarrow> error + string"
  ctx_parseRelayerPayload :: "context_kind \<Rightarrow> bytes \<Rightarrow> error + relayer_payload"
  createNonce :: "'w \<Rightarrow> nat \<times> 'w"
  signer_getAddress :: "string \<Rightarrow> 'w \<Rightarrow> (error + string) \<times> 'w"
  signer_sendTransaction :: "string \<Rightarrow> populated_tx \<Rightarrow> 'w \<Rightarrow> (error + string) \<times> 'w"
  tx_wait :: "string \<Rightarrow> 'w \<Rightarrow> (error + tx_receipt) \<times> 'w"
  token_allowance :: "string \<Rightarrow> string \<Rightarrow> string \<Rightarrow> 'w \<Rightarrow> (error + int) \<times> 'w"
  token_approve ::
    "string \<Rightarrow> string \<Rightarrow> string \<Rightarrow> big_numberish \<Rightarrow> overrides \<Rightarrow> 'w \<Rightarrow> (error + string) \<times> 'w"
  bridge_wrappedAsset :: "string \<Rightarrow> nat \<Rightarrow> bytes \<Rightarrow> 'w \<Rightarrow> (error + string) \<times> 'w"
  bridge_WETH :: "string \<Rightarrow> 'w \<Rightarrow> (error + string) \<times> 'w"
  bridge_parseTransfer :: "string \<Rightarrow> bytes \<Rightarrow> 'w \<Rightarrow> (error + transfer) \<times> 'w"
  bridge_parseTransferWithPayload ::
    "string \<Rightarrow> bytes \<Rightarrow> 'w \<Rightarrow> (error + transfer_with_payload) \<times> 'w"
  contract_callStatic :: "string \<Rightarrow> contract_call \<Rightarrow> overrides \<Rightarrow> 'w \<Rightarrow> (error + unit) \<times> 'w"
  contract_populate ::
    "string \<Rightarrow> contract_call \<Rightarrow> overrides \<Rightarrow> 'w \<Rightarrow> (error + populated_tx) \<times> 'w"
  provider_getTransactionReceipt ::
    "string \<Rightarrow> string \<Rightarrow> 'w \<Rightarrow> (error + tx_receipt option) \<times> 'w"
  sol_getAssociatedTokenAddress ::
    "context_kind \<Rightarrow> token_id \<Rightarrow> string \<Rightarrow> 'w \<Rightarrow> (error + string) \<times> 'w"
  other_formatAssetAddress :: "context_kind \<Rightarrow> string \<Rightarrow> 'w \<Rightarrow> (error + bytes) \<times> 'w"
  other_parseAssetAddress :: "context_kind \<Rightarrow> string \<Rightarrow> 'w \<Rightarrow> (error + string) \<times> 'w"

section \<open>The EVM context\<close>

text \<open>
  \<^verbatim>\<open>getContext\<close> returns the context of a chain's family. For an EVM chain that is
  an \<^verbatim>\<open>EthContext\<close>, whose address codec is the one above and whose asset-address
  codec wraps it without a call; the other families' codecs are collaborators.
\<close>

definition context_formatAddress :: "'w env \<Rightarrow> context_kind \<Rightarrow> string \<Rightarrow> error + bytes" where
  "context_formatAddress env c a =
     (if c = ETH then formatAddress a else other_formatAddress env c a)"

definition context_parseAddress :: "'w env \<Rightarrow> context_kind \<Rightarrow> bytes_like \<Rightarrow> error + string" where
  "context_parseAddress env c v =
     (if c = ETH then parseAddress (addressLib env) v else other_parseAddress env c v)"

definition formatAssetAddress :: "'w env \<Rightarrow> context_kind \<Rightarrow> string \<Rightarrow> ('w, bytes) io" where
  "formatAssetAddress env c a =
     (if c = ETH then io_lift (formatAddress a)
      else io_call (FormatAssetAddress c a) (other_formatAssetAddress env c a))"

definition parseAssetAddress :: "'w env \<Rightarrow> context_kind \<Rightarrow> string \<Rightarrow> ('w, string) io" where
  "parseAssetAddress env c a =
     (if c = ETH then io_lift (parseAddress (addressLib env) (Hex a))
      else io_call (ParseAssetAddress c a) (other_parseAssetAddress env c a))"

subsection \<open>Foreign assets\<close>

definition getForeignAsset :: "'w env \<Rightarrow> token_id \<Rightarrow> chain_ref \<Rightarrow> ('w, string option) io" where
  "getForeignAsset env tokenId chain =
     (let toChainId' = toChainId env chain;
          chainId = toChainId env (ChainName (tid_chain tokenId))
      in if toChainId' = chainId then io_return (Some (tid_address tokenId))
         else
           io_bind (io_lift (mustGetBridge env chain)) (\<lambda>tokenBridge.
           let sourceContext = getContext env (ChainName (tid_chain tokenId)) in
           io_bind (formatAssetAddress env sourceContext (tid_address tokenId)) (\<lambda>tokenAddr.
           io_bind (io_lift (arrayify (Bytes tokenAddr))) (\<lambda>tokenAddrBytes.
           io_bind (io_call (WrappedAsset tokenBridge chainId tokenAddrBytes)
                      (bridge_wrappedAsset env tokenBridge chainId tokenAddrBytes)) (\<lambda>foreignAddr.
           if foreignAddr = AddressZero then io_return None
           else io_return (Some foreignAddr))))))"

text \<open>\<^verbatim>\<open>if (!addr) throw\<close>: \<^verbatim>\<open>null\<close> and the empty text are both false.\<close>

definition mustGetForeignAsset :: "'w env \<Rightarrow> token_id \<Rightarrow> chain_ref \<Rightarrow> ('w, string) io" where
  "mustGetForeignAsset env tokenId chain =
     io_bind (getForeignAsset env tokenId chain) (\<lambda>addr.
     case addr of
       None \<Rightarrow> io_throw TokenNotRegistered
     | Some a \<Rightarrow> if a = [] then io_throw TokenNotRegistered else io_return a)"

subsection \<open>Approval\<close>

text \<open>\<^verbatim>\<open>amount || constants.MaxUint256\<close>, for an amount that may be omitted.\<close>

definition approveAmount_of :: "big_numberish option \<Rightarrow> big_numberish" where
  "approveAmount_of amount =
     (case amount of
        None \<Rightarrow> BigNumberV (BN MaxUint256)
      | Some a \<Rightarrow> if truthy a then a else BigNumberV (BN MaxUint256))"

text \<open>
  \<^verbatim>\<open>approved.lt(approveAmount)\<close> reads the number of \<open>approveAmount\<close> with
  \<open>toBN\<close>, after the allowance query and before any approval.
\<close>

definition approve ::
  "'w env \<Rightarrow> chain_ref \<Rightarrow> string \<Rightarrow> string \<Rightarrow> big_numberish option \<Rightarrow> overrides \<Rightarrow> ('w, unit) io"
where
  "approve env chain contractAddress tokenAddr amount ov =
     (case getSigner env chain of
        None \<Rightarrow> io_throw (NoSigner chain)
      | Some signer \<Rightarrow>
          io_bind (io_call (SignerGetAddress signer) (signer_getAddress env signer)) (\<lambda>senderAddress.
          if \<not> tokenContractAvailable env tokenAddr
          then io_throw (TokenContractNotAvailable tokenAddr)
          else
            io_bind (io_call (Allowance tokenAddr senderAddress contractAddress)
                       (token_allowance env tokenAddr senderAddress contractAddress)) (\<lambda>approved.
            let approveAmount = approveAmount_of amount in
            io_bind (io_lift (toBN approveAmount)) (\<lambda>target.
            if approved < target then
              io_bind (io_call (Approve tokenAddr signer contractAddress approveAmount ov)
                         (token_approve env tokenAddr signer contractAddress approveAmount ov)) (\<lambda>tx.
              io_bind (io_call (Wait tx) (tx_wait env tx)) (\<lambda>_.
              io_return ()))
            else io_return ()))))"

subsection \<open>Transfers through the token bridge\<close>

definition io_nonce :: "'w env \<Rightarrow> ('w, nat) io" where
  "io_nonce env = (\<lambda>w. case createNonce env w of (n, w1) \<Rightarrow> (Inr n, w1, []))"

text \<open>
  The account that receives the funds, the block of \<^verbatim>\<open>prepareSend\<close> that sets
  \<^verbatim>\<open>recipientAccount\<close>: the recipient's address, and for a transfer to Solana
  (chain id 1) the associated token account of the token, which for the native
  asset is the bridge's wrapped-ether token.
\<close>

definition recipientAccount ::
  "'w env \<Rightarrow> token \<Rightarrow> string \<Rightarrow> chain_ref \<Rightarrow> chain_ref \<Rightarrow> string \<Rightarrow> ('w, string) io"
where
  "recipientAccount env token bridge sendingChain recipientChain recipientAddress =
     (let destContext = getContext env recipientChain;
          recipientChainId = toChainId env recipientChain;
          sendingChainName = toChainName env sendingChain
      in
      if recipientChainId = 1 then
        io_bind
          (case token of
             NATIVE \<Rightarrow>
               io_bind (io_call (WETH bridge) (bridge_WETH env bridge)) (\<lambda>weth.
               io_return \<lparr>tid_chain = sendingChainName, tid_address = weth\<rparr>)
           | Token t \<Rightarrow> io_return t) (\<lambda>tokenId.
        io_call (AssociatedTokenAddress destContext tokenId recipientAddress)
          (sol_getAssociatedTokenAddress env destContext tokenId recipientAddress))
      else io_return recipientAddress)"

text \<open>
  \<^verbatim>\<open>prepareSend\<close>. Each of the two branches makes the contract call twice, first
  through \<^verbatim>\<open>callStatic\<close> and then through \<^verbatim>\<open>populateTransaction\<close>; the
  arguments are evaluated anew for each call, \<^verbatim>\<open>createNonce()\<close> among them.
\<close>

definition prepareSend ::
  "'w env \<Rightarrow> token \<Rightarrow> string \<Rightarrow> chain_ref \<Rightarrow> string \<Rightarrow> chain_ref \<Rightarrow> string \<Rightarrow> big_numberish
     \<Rightarrow> overrides \<Rightarrow> ('w, populated_tx) io"
where
  "prepareSend env token amount sendingChain senderAddress recipientChain recipientAddress
       relayerFee ov =
     (let destContext = getContext env recipientChain;
          recipientChainId = toChainId env recipientChain
      in
      io_bind (io_lift (BigNumber_from (StringV amount))) (\<lambda>amountBN.
      io_bind (io_lift (mustGetBridge env sendingChain)) (\<lambda>bridge.
      io_bind (recipientAccount env token bridge sendingChain recipientChain recipientAddress)
        (\<lambda>recipientAccount.
      case token of
        NATIVE \<Rightarrow>
          io_bind (io_lift (context_formatAddress env destContext recipientAccount)) (\<lambda>recipient.
          io_bind (io_nonce env) (\<lambda>nonce.
          let simOv = ov\<lparr>ov_value := Some (BigNumberV amountBN), ov_from := Some senderAddress\<rparr>;
              simCall = WrapAndTransferETH recipientChainId recipient relayerFee nonce in
          io_bind (io_call (CallStatic bridge simCall simOv)
                     (contract_callStatic env bridge simCall simOv)) (\<lambda>_.
          io_bind (io_lift (context_formatAddress env destContext recipientAccount)) (\<lambda>recipient2.
          io_bind (io_nonce env) (\<lambda>nonce2.
          let txOv = ov\<lparr>ov_value := Some (BigNumberV amountBN)\<rparr>;
              txCall = WrapAndTransferETH recipientChainId recipient2 relayerFee nonce2 in
          io_call (Populate bridge txCall txOv) (contract_populate env bridge txCall txOv))))))
      | Token t \<Rightarrow>
          io_bind (mustGetForeignAsset env t sendingChain) (\<lambda>tokenAddr.
          io_bind (io_lift (context_formatAddress env destContext recipientAccount)) (\<lambda>recipient.
          io_bind (io_nonce env) (\<lambda>nonce.
          let simOv = ov\<lparr>ov_from := Some senderAddress\<rparr>;
              simCall = TransferTokens tokenAddr amountBN recipientChainId recipient relayerFee nonce in
          io_bind (io_call (CallStatic bridge simCall simOv)
                     (contract_callStatic env bridge simCall simOv)) (\<lambda>_.
          io_bind (io_lift (context_formatAddress env destContext recipientAccount)) (\<lambda>recipient2.
          io_bind (io_nonce env) (\<lambda>nonce2.
          let txCall = TransferTokens tokenAddr amountBN recipientChainId recipient2 relayerFee nonce2 in
          io_call (Populate bridge txCall ov) (contract_populate env bridge txCall ov)))))))))))"

definition send ::
  "'w env \<Rightarrow> token \<Rightarrow> string \<Rightarrow> chain_ref \<Rightarrow> string \<Rightarrow> chain_ref \<Rightarrow> string \<Rightarrow> big_numberish
     \<Rightarrow> overrides \<Rightarrow> ('w, tx_receipt) io"
where
  "send env token amount sendingChain senderAddress recipientChain recipientAddress
       relayerFee ov =
     (case getSigner env sendingChain of
        None \<Rightarrow> io_throw (NoSigner sendingChain)
      | Some signer \<Rightarrow>
          io_bind
            (case token of
               NATIVE \<Rightarrow> io_return ()
             | Token t \<Rightarrow>
                 io_bind (io_lift (BigNumber_from (StringV amount))) (\<lambda>amountBN.
                 io_bind (io_lift (mustGetBridge env sendingChain)) (\<lambda>bridge.
                 io_bind (mustGetForeignAsset env t sendingChain) (\<lambda>tokenAddr.
                 approve env sendingChain bridge tokenAddr (Some (BigNumberV amountBN)) ov)))) (\<lambda>_.
          io_bind (prepareSend env token amount sendingChain senderAddress recipientChain
                     recipientAddress relayerFee ov) (\<lambda>tx.
          io_bind (io_call (SendTransaction signer tx) (signer_sendTransaction env signer tx)) (\<lambda>v.
          io_call (Wait v) (tx_wait env v)))))"

subsection \<open>Transfers through the relayer\<close>

definition prepareSendWithRelay ::
  "'w env \<Rightarrow> token \<Rightarrow> string \<Rightarrow> string \<Rightarrow> chain_ref \<Rightarrow> string \<Rightarrow> chain_ref \<Rightarrow> string
     \<Rightarrow> overrides \<Rightarrow> ('w, populated_tx) io"
where
  "prepareSendWithRelay env token amount toNativeToken sendingChain senderAddress recipientChain
       recipientAddress ov =
     (let destContext = getContext env recipientChain;
          recipientChainId = toChainId env recipientChain
      in
      io_bind (io_lift (BigNumber_from (StringV amount))) (\<lambda>amountBN.
      io_bind (io_lift (mustGetTokenBridgeRelayer env sendingChain)) (\<lambda>relayer.
      io_bind (io_lift (BigNumber_from (StringV toNativeToken))) (\<lambda>nativeTokenBN.
      case token of
        NATIVE \<Rightarrow>
          io_bind (io_lift (context_formatAddress env destContext recipientAddress)) (\<lambda>recipient.
          let txOv = ov\<lparr>ov_value := Some (BigNumberV amountBN)\<rparr>;
              txCall = WrapAndTransferEthWithRelay nativeTokenBN recipientChainId recipient 0 in
          io_call (Populate relayer txCall txOv) (contract_populate env relayer txCall txOv))
      | Token t \<Rightarrow>
          io_bind (mustGetForeignAsset env t sendingChain) (\<lambda>tokenAddr.
          io_bind (io_lift (parseAddress (addressLib env) (Hex tokenAddr))) (\<lambda>tokenArg.
          io_bind (io_lift (context_formatAddress env destContext recipientAddress)) (\<lambda>recipient.
          let txCall = TransferTokensWithRelay tokenArg amountBN nativeTokenBN recipientChainId
                         recipient 0 in
          io_call (Populate relayer txCall ov) (contract_populate env relayer txCall ov))))))))"

definition sendWithRelay ::
  "'w env \<Rightarrow> token \<Rightarrow> string \<Rightarrow> string \<Rightarrow> chain_ref \<Rightarrow> string \<Rightarrow> chain_ref \<Rightarrow> string
     \<Rightarrow> overrides \<Rightarrow> ('w, tx_receipt) io"
where
  "sendWithRelay env token amount toNativeToken sendingChain senderAddress recipientChain
       recipientAddress ov =
     (case getSigner env sendingChain of
        None \<Rightarrow> io_throw (NoSigner sendingChain)
      | Some signer \<Rightarrow>
          io_bind
            (case token of
               NATIVE \<Rightarrow> io_return ()
             | Token t \<Rightarrow>
                 io_bind (io_lift (BigNumber_from (StringV amount))) (\<lambda>amountBN.
                 io_bind (io_lift (mustGetTokenBridgeRelayer env sendingChain)) (\<lambda>relayer.
                 io_bind (mustGetForeignAsset env t sendingChain) (\<lambda>tokenAddr.
                 approve env sendingChain relayer tokenAddr (Some (BigNumberV amountBN)) ov)))) (\<lambda>_.
          io_bind (prepareSendWithRelay env token amount toNativeToken sendingChain senderAddress
                     recipientChain recipientAddress ov) (\<lambda>tx.
          io_bind (io_call (SendTransaction signer tx) (signer_sendTransaction env signer tx)) (\<lambda>v.
          io_call (Wait v) (tx_wait env v)))))"

subsection \<open>Redemption\<close>

definition prepareRedeem :: "'w env \<Rightarrow> chain_ref \<Rightarrow> bytes \<Rightarrow> overrides \<Rightarrow> ('w, populated_tx) io" where
  "prepareRedeem env destChain signedVAA ov =
     io_bind (io_lift (mustGetBridge env destChain)) (\<lambda>bridge.
     io_bind (io_call (CallStatic bridge (CompleteTransfer signedVAA) ov)
                (contract_callStatic env bridge (CompleteTransfer signedVAA) ov)) (\<lambda>_.
     io_call (Populate bridge (CompleteTransfer signedVAA) ov)
       (contract_populate env bridge (CompleteTransfer signedVAA) ov)))"

definition redeem :: "'w env \<Rightarrow> chain_ref \<Rightarrow> bytes \<Rightarrow> overrides \<Rightarrow> ('w, tx_receipt) io" where
  "redeem env destChain signedVAA ov =
     (case getSigner env destChain of
        None \<Rightarrow> io_throw (NoSigner destChain)
      | Some signer \<Rightarrow>
          io_bind (prepareRedeem env destChain signedVAA ov) (\<lambda>tx.
          io_bind (io_call (SendTransaction signer tx) (signer_sendTransaction env signer tx)) (\<lambda>v.
          io_call (Wait v) (tx_wait env v))))"


subsection \<open>Messages of a transaction\<close>

definition startsWith :: "string \<Rightarrow> string \<Rightarrow> bool" where
  "startsWith s p = (take (length p) s = p)"

text \<open>\<^verbatim>\<open>if (gasUsed && effectiveGasPrice) gasFee = gasUsed.mul(effectiveGasPrice)\<close>.\<close>

definition gasFee_of_receipt :: "tx_receipt \<Rightarrow> int option" where
  "gasFee_of_receipt receipt =
     (case r_gasUsed receipt of
        None \<Rightarrow> None
      | Some gasUsed \<Rightarrow>
          (case r_effectiveGasPrice receipt of
             None \<Rightarrow> None
           | Some effectiveGasPrice \<Rightarrow> Some (gasUsed * effectiveGasPrice)))"

text \<open>The function mapped over the logs of the core contract: one message per log.\<close>

definition parseBridgeLog ::
  "'w env \<Rightarrow> string \<Rightarrow> chain_ref \<Rightarrow> tx_receipt \<Rightarrow> int option \<Rightarrow> string \<Rightarrow> log_entry
     \<Rightarrow> ('w, any_message) io"
where
  "parseBridgeLog env tx chain receipt gasFee bridge bridgeLog =
     io_bind (io_lift (core_parseLog env bridgeLog)) (\<lambda>parsed.
     let fromChain = toChainName env chain in
     if startsWith (hexlify (la_payload parsed)) ''0x01'' then
       io_bind (io_call (ParseTransfer bridge (la_payload parsed))
                  (bridge_parseTransfer env bridge (la_payload parsed))) (\<lambda>parsedTransfer.
       let destContext = getContext env (ChainId (t_toChain parsedTransfer));
           tokenContext = getContext env (ChainId (t_tokenChain parsedTransfer)) in
       io_bind (parseAssetAddress env tokenContext (t_tokenAddress parsedTransfer)) (\<lambda>tokenAddress.
       let tokenChain = toChainName env (ChainId (t_tokenChain parsedTransfer)) in
       io_bind (io_lift (context_parseAddress env destContext (Hex (t_to parsedTransfer)))) (\<lambda>recipient.
       io_bind (io_lift (formatAddress bridge)) (\<lambda>emitter.
       io_return (PM \<lparr>
         m_sendTx = tx,
         m_sender = r_from receipt,
         m_amount = t_amount parsedTransfer,
         m_payloadID = t_payloadID parsedTransfer,
         m_recipient = recipient,
         m_toChain = toChainName env (ChainId (t_toChain parsedTransfer)),
         m_fromChain = fromChain,
         m_tokenAddress = tokenAddress,
         m_tokenChain = tokenChain,
         m_tokenId = \<lparr>tid_chain = tokenChain, tid_address = tokenAddress\<rparr>,
         m_sequence = la_sequence parsed,
         m_emitterAddress = hexlify emitter,
         m_block = r_blockNumber receipt,
         m_gasFee = gasFee,
         m_payload = None\<rparr>)))))
     else
       io_bind (io_call (ParseTransferWithPayload bridge (la_payload parsed))
                  (bridge_parseTransferWithPayload env bridge (la_payload parsed))) (\<lambda>parsedTransfer.
       let destContext = getContext env (ChainId (t_toChain parsedTransfer));
           toChain = toChainName env (ChainId (t_toChain parsedTransfer)) in
       io_bind (io_lift (arrayify (Hex (t_payload parsedTransfer)))) (\<lambda>payloadBytes.
       io_bind (io_lift (ctx_parseRelayerPayload env destContext payloadBytes)) (\<lambda>relayerPayload.
       let tokenContext = getContext env (ChainId (t_tokenChain parsedTransfer)) in
       io_bind (parseAssetAddress env tokenContext (t_tokenAddress parsedTransfer)) (\<lambda>tokenAddress.
       let tokenChain = toChainName env (ChainId (t_tokenChain parsedTransfer)) in
       io_bind (io_lift (context_parseAddress env destContext (Hex (t_to parsedTransfer)))) (\<lambda>to.
       io_bind (io_lift (formatAddress bridge)) (\<lambda>emitter.
       io_bind (io_lift (context_parseAddress env destContext (Hex (rp_to relayerPayload)))) (\<lambda>recipient.
       io_return (PRM \<lparr>
         m_sendTx = tx,
         m_sender = r_from receipt,
         m_amount = t_amount parsedTransfer,
         m_payloadID = t_payloadID parsedTransfer,
         m_recipient = recipient,
         m_toChain = toChain,
         m_fromChain = fromChain,
         m_tokenAddress = tokenAddress,
         m_tokenChain = tokenChain,
         m_tokenId = \<lparr>tid_chain = tokenChain, tid_address = tokenAddress\<rparr>,
         m_sequence = la_sequence parsed,
         m_emitterAddress = hexlify emitter,
         m_block = r_blockNumber receipt,
         m_gasFee = gasFee,
         m_payload = Some (t_payload parsedTransfer),
         m_relayerPayloadId = rp_relayerPayloadId relayerPayload,
         m_to = to,
         m_relayerFee = rp_relayerFee relayerPayload,
         m_toNativeTokenAmount = rp_toNativeTokenAmount relayerPayload\<rparr>)))))))))"

text \<open>
  \<^verbatim>\<open>Promise.all\<close> over the mapped logs. The decoding of every log is started,
  whether or not another one fails, and when all succeed the messages come in the
  order of the logs. The model runs the decodings one after the other, from the
  first log to the last, each to its end, and where some fail it reports the error
  of the first failing log. In the source the calls of different logs interleave,
  and the error reported is that of the decoding that fails first in time; neither
  the message of a log nor the order of the messages depends on the interleaving.
\<close>

fun io_mapM :: "('a \<Rightarrow> ('w, 'b) io) \<Rightarrow> 'a list \<Rightarrow> ('w, 'b list) io" where
  "io_mapM f [] = io_return []"
| "io_mapM f (x # xs) =
     (\<lambda>w. case f x w of
        (r, w1, evs1) \<Rightarrow>
          (case io_mapM f xs w1 of
             (rs, w2, evs2) \<Rightarrow>
               ((case r of
                   Inl e \<Rightarrow> Inl e
                 | Inr y \<Rightarrow> (case rs of Inl e \<Rightarrow> Inl e | Inr ys \<Rightarrow> Inr (y # ys))),
                w2, evs1 @ evs2)))"

definition parseMessageFromTx :: "'w env \<Rightarrow> string \<Rightarrow> chain_ref \<Rightarrow> ('w, any_message list) io" where
  "parseMessageFromTx env tx chain =
     io_bind (io_lift (mustGetProvider env chain)) (\<lambda>provider.
     io_bind (io_call (GetTransactionReceipt provider tx)
                (provider_getTransactionReceipt env provider tx)) (\<lambda>found.
     case found of
       None \<Rightarrow> io_throw (NoReceipt tx chain)
     | Some receipt \<Rightarrow>
         let gasFee = gasFee_of_receipt receipt in
         io_bind (io_lift (mustGetCore env chain)) (\<lambda>core.
         io_bind (io_lift (mustGetBridge env chain)) (\<lambda>bridge.
         let bridgeLogs = filter (\<lambda>l. l_address l = core) (r_logs receipt) in
         io_mapM (parseBridgeLog env tx chain receipt gasFee bridge) bridgeLogs))))"

definition message_gasFee :: "any_message \<Rightarrow> int option" where
  "message_gasFee m = (case m of PM b \<Rightarrow> m_gasFee b | PRM r \<Rightarrow> m_gasFee r)"


section \<open>Observations on traces\<close>




definition is_dry_run :: "event \<times> outcome \<Rightarrow> bool" where
  "is_dry_run e = (case fst e of CallStatic a c ov \<Rightarrow> True | _ \<Rightarrow> False)"

text \<open>
  A contract call without its nonce: \<^verbatim>\<open>createNonce()\<close> is evaluated once for the
  dry run and once more for the transaction, so the two calls carry nonces drawn
  independently; all the other arguments are the transfer's parameters.
\<close>

fun drop_nonce :: "contract_call \<Rightarrow> contract_call" where
  "drop_nonce (WrapAndTransferETH rc r fee n) = WrapAndTransferETH rc r fee 0"
| "drop_nonce (TransferTokens t a rc r fee n) = TransferTokens t a rc r fee 0"
| "drop_nonce c = c"

text \<open>
  \<open>dry_run_precedes f prev evs\<close>: every construction of a transaction in \<open>evs\<close>
  comes right after a dry run that succeeded, on the same contract, of the same call up
  to the nonce, with the overrides \<open>f ov\<close> where the construction has \<open>ov\<close>;
  \<open>prev\<close> is the event before \<open>evs\<close>, if any.
\<close>

fun dry_run_precedes ::
  "(overrides \<Rightarrow> overrides) \<Rightarrow> (event \<times> outcome) option \<Rightarrow> trace \<Rightarrow> bool"
where
  "dry_run_precedes f prev [] = True"
| "dry_run_precedes f prev (e # es) =
     ((case fst e of
         Populate b c ov \<Rightarrow>
           (case prev of
              Some (CallStatic b' c' ov', Succeeded) \<Rightarrow>
                b' = b \<and> drop_nonce c' = drop_nonce c \<and> ov' = f ov
            | _ \<Rightarrow> False)
       | _ \<Rightarrow> True)
      \<and> dry_run_precedes f (Some e) es)"


section \<open>A reference environment\<close>

text \<open>
  A small concrete environment on which the operations can be run: three chains
  (\<^verbatim>\<open>solana\<close> = 1, \<^verbatim>\<open>ethereum\<close> = 2, \<^verbatim>\<open>bsc\<close> = 4), a signer configured for
  \<^verbatim>\<open>ethereum\<close> only, one token of \<^verbatim>\<open>ethereum\<close> that is registered on \<^verbatim>\<open>bsc\<close>,
  a token contract that keeps one allowance and sets it on approval, and a bridge
  contract. The bridge's two decoders are those of the token bridge: each reads
  the payload id from the first byte and reverts with \<^verbatim>\<open>invalid Transfer\<close>
  unless it is its own (1 for a transfer, 3 for a transfer with payload), then
  reads the fields at their offsets. A dry run of a token transfer is refused when
  the allowance does not cover the amount, and a dry run of a redemption when the
  attestation is empty. All the addresses are written with digits only, so that
  the checksum casing leaves them as they are.
\<close>

record ref_world =
  rw_allowance :: int
  rw_nonce :: nat

definition ref_wallet :: string where
  "ref_wallet = ''0x1000000000000000000000000000000000000001''"

definition ref_core :: string where
  "ref_core = ''0x2000000000000000000000000000000000000002''"

definition ref_bridge :: string where
  "ref_bridge = ''0x3000000000000000000000000000000000000003''"

definition ref_relayer :: string where
  "ref_relayer = ''0x4000000000000000000000000000000000000004''"

definition ref_weth :: string where
  "ref_weth = ''0x5000000000000000000000000000000000000005''"

definition ref_token :: string where
  "ref_token = ''0x6000000000000000000000000000000000000006''"

definition ref_wrapped :: string where
  "ref_wrapped = ''0x7000000000000000000000000000000000000007''"

definition ref_toChainId :: "chain_ref \<Rightarrow> nat" where
  "ref_toChainId c =
     (case c of
        ChainId n \<Rightarrow> n
      | ChainName s \<Rightarrow>
          if s = ''solana'' then 1 else if s = ''ethereum'' then 2
          else if s = ''bsc'' then 4 else 0)"

definition ref_toChainName :: "chain_ref \<Rightarrow> string" where
  "ref_toChainName c =
     (case c of
        ChainName s \<Rightarrow> s
      | ChainId n \<Rightarrow>
          if n = 1 then ''solana'' else if n = 2 then ''ethereum''
          else if n = 4 then ''bsc'' else ''unknown'')"

definition be_value :: "bytes \<Rightarrow> int" where
  "be_value bs = foldl (\<lambda>acc b. 256 * acc + uint b) 0 bs"

text \<open>
  The layout of a transfer: the payload id (1 byte), the amount (32), the token's
  address (32) and chain (2), the recipient's address (32) and chain (2), and then
  the fee (32), which ends a transfer, or the sender (32) and the bytes of the
  inner payload, for a transfer with payload.
\<close>

definition ref_parseTransfer :: "bytes \<Rightarrow> error + transfer" where
  "ref_parseTransfer p =
     (if p = [] then Inl (External ''toUint8_outOfBounds'')
      else if hd p \<noteq> 1 then Inl (External ''invalid Transfer'')
      else if length p < 133 then Inl (External ''toUint256_outOfBounds'')
      else if length p \<noteq> 133 then Inl (External ''invalid Transfer'')
      else Inr \<lparr>
        t_payloadID = unat (hd p),
        t_amount = be_value (take 32 (drop 1 p)),
        t_tokenAddress = hexlify (take 32 (drop 33 p)),
        t_tokenChain = nat (be_value (take 2 (drop 65 p))),
        t_to = hexlify (take 32 (drop 67 p)),
        t_toChain = nat (be_value (take 2 (drop 99 p)))\<rparr>)"

definition ref_parseTransferWithPayload :: "bytes \<Rightarrow> error + transfer_with_payload" where
  "ref_parseTransferWithPayload p =
     (if p = [] then Inl (External ''toUint8_outOfBounds'')
      else if hd p \<noteq> 3 then Inl (External ''invalid Transfer'')
      else if length p < 133 then Inl (External ''toBytes32_outOfBounds'')
      else Inr \<lparr>
        t_payloadID = unat (hd p),
        t_amount = be_value (take 32 (drop 1 p)),
        t_tokenAddress = hexlify (take 32 (drop 33 p)),
        t_tokenChain = nat (be_value (take 2 (drop 65 p))),
        t_to = hexlify (take 32 (drop 67 p)),
        t_toChain = nat (be_value (take 2 (drop 99 p))),
        t_payload = hexlify (drop 133 p)\<rparr>)"

definition ref_parseRelayerPayload :: "bytes \<Rightarrow> error + relayer_payload" where
  "ref_parseRelayerPayload p =
     (if length p < 97 then Inl (External ''relayer payload too short'')
      else Inr \<lparr>
        rp_relayerPayloadId = unat (p ! 0),
        rp_to = hexlify (take 32 (drop 1 p)),
        rp_relayerFee = be_value (take 32 (drop 33 p)),
        rp_toNativeTokenAmount = be_value (take 32 (drop 65 p))\<rparr>)"

definition ref_callStatic :: "contract_call \<Rightarrow> ref_world \<Rightarrow> error + unit" where
  "ref_callStatic c w =
     (case c of
        TransferTokens t amount rc r fee n \<Rightarrow>
          (case toBN (BigNumberV amount) of
             Inl e \<Rightarrow> Inl e
           | Inr a \<Rightarrow>
               if rw_allowance w < a then Inl (External ''insufficient allowance'') else Inr ())
      | CompleteTransfer vaa \<Rightarrow>
          if vaa = [] then Inl (External ''invalid attestation'') else Inr ()
      | _ \<Rightarrow> Inr ())"

definition ref_receipt :: "log_entry list \<Rightarrow> tx_receipt" where
  "ref_receipt logs = \<lparr>
     r_from = ref_wallet, r_blockNumber = 100,
     r_gasUsed = Some 21000, r_effectiveGasPrice = Some 30, r_logs = logs\<rparr>"

text \<open>
  The environment is built around the receipt of the one transaction its provider
  knows, \<^verbatim>\<open>0xaa\<close>.
\<close>

definition ref_env :: "tx_receipt \<Rightarrow> ref_world env" where
  "ref_env receipt = \<lparr>
     toChainId = ref_toChainId,
     toChainName = ref_toChainName,
     getContext = (\<lambda>c. if ref_toChainId c = 1 then SOLANA else ETH),
     getSigner = (\<lambda>c. if ref_toChainId c = 2 then Some ''wallet'' else None),
     mustGetProvider = (\<lambda>c. Inr ''rpc''),
     mustGetCore = (\<lambda>c. Inr ref_core),
     mustGetBridge = (\<lambda>c. Inr ref_bridge),
     mustGetTokenBridgeRelayer = (\<lambda>c. Inr ref_relayer),
     tokenContractAvailable = (\<lambda>a. True),
     addressLib = \<lparr>getChecksumAddress = (\<lambda>s. s),
                    icapAddress = (\<lambda>s. Inl (LibraryError ''invalid address''))\<rparr>,
     core_parseLog = (\<lambda>l. case arrayify (Hex (l_data l)) of
                             Inl e \<Rightarrow> Inl e
                           | Inr bs \<Rightarrow> Inr \<lparr>la_sequence = 7, la_payload = bs\<rparr>),
     other_formatAddress = (\<lambda>c a. Inl (External ''unsupported'')),
     other_parseAddress = (\<lambda>c v. Inl (External ''unsupported'')),
     ctx_parseRelayerPayload = (\<lambda>c p. ref_parseRelayerPayload p),
     createNonce = (\<lambda>w. (rw_nonce w, w\<lparr>rw_nonce := rw_nonce w + 1\<rparr>)),
     signer_getAddress = (\<lambda>s w. (Inr ref_wallet, w)),
     signer_sendTransaction = (\<lambda>s tx w. (Inr ''0xaa'', w)),
     tx_wait = (\<lambda>h w. (Inr receipt, w)),
     token_allowance = (\<lambda>t owner spender w. (Inr (rw_allowance w), w)),
     token_approve = (\<lambda>t s spender amount ov w.
                        case toBN amount of
                          Inl e \<Rightarrow> (Inl e, w)
                        | Inr n \<Rightarrow> (Inr ''0xbb'', w\<lparr>rw_allowance := n\<rparr>)),
     bridge_wrappedAsset = (\<lambda>b c a w.
                        (Inr (if c = 2 \<and> Inr a = formatAddress ref_token then ref_wrapped
                              else AddressZero), w)),
     bridge_WETH = (\<lambda>b w. (Inr ref_weth, w)),
     bridge_parseTransfer = (\<lambda>b p w. (ref_parseTransfer p, w)),
     bridge_parseTransferWithPayload = (\<lambda>b p w. (ref_parseTransferWithPayload p, w)),
     contract_callStatic = (\<lambda>a c ov w. (ref_callStatic c w, w)),
     contract_populate = (\<lambda>a c ov w. (Inr \<lparr>ptx_to = a, ptx_call = c, ptx_overrides = ov\<rparr>, w)),
     provider_getTransactionReceipt = (\<lambda>p tx w.
                        (Inr (if tx = ''0xaa'' then Some receipt else None), w)),
     sol_getAssociatedTokenAddress = (\<lambda>c t a w. (Inl (External ''unsupported''), w)),
     other_formatAssetAddress = (\<lambda>c a w. (Inl (External ''unsupported''), w)),
     other_parseAssetAddress = (\<lambda>c a w. (Inl (External ''unsupported''), w))\<rparr>"

definition ref_world0 :: ref_world where
  "ref_world0 = \<lparr>rw_allowance = 0, rw_nonce = 0\<rparr>"

definition no_overrides :: overrides where
  "no_overrides = \<lparr>ov_from = None, ov_value = None, ov_rest = []\<rparr>"

definition ref_token_bytes :: bytes where
  "ref_token_bytes = replicate 12 0 @ [0x60] @ replicate 18 0 @ [0x06]"

definition ref_wallet_bytes :: bytes where
  "ref_wallet_bytes = replicate 12 0 @ [0x10] @ replicate 18 0 @ [0x01]"

definition ref_bridge_bytes :: bytes where
  "ref_bridge_bytes = replicate 12 0 @ [0x30] @ replicate 18 0 @ [0x03]"

definition ref_tokenId :: token_id where
  "ref_tokenId = \<lparr>tid_chain = ''ethereum'', tid_address = ref_token\<rparr>"

text \<open>
  A payload with the payload id given, for the amount 1000000 of the reference
  token sent to the wallet on \<^verbatim>\<open>bsc\<close>, with a last field of zeros (the fee, or
  the sender); and a relayer payload, which may follow it.
\<close>

definition ref_payload :: "byte \<Rightarrow> bytes" where
  "ref_payload d =
     [d] @ replicate 29 0 @ [0x0F, 0x42, 0x40]
     @ replicate 12 0 @ [0x60] @ replicate 18 0 @ [0x06]
     @ [0, 2]
     @ replicate 12 0 @ [0x10] @ replicate 18 0 @ [0x01]
     @ [0, 4]
     @ replicate 32 0"

definition ref_relayer_bytes :: bytes where
  "ref_relayer_bytes =
     [1] @ replicate 12 0 @ [0x10] @ replicate 18 0 @ [0x01]
     @ replicate 31 0 @ [5]
     @ replicate 31 0 @ [9]"

definition ref_log :: "bytes \<Rightarrow> log_entry" where
  "ref_log p = \<lparr>l_address = ref_core, l_topics = [], l_data = hexlify p\<rparr>"

section \<open>Properties\<close>

subsection \<open>Laws of sequencing\<close>

lemma io_bind_return: "io_bind (io_return x) f = f x"
  by (rule ext) (simp add: io_bind_def io_return_def split: prod.splits)

lemma io_bind_throw: "io_bind (io_throw e) f = io_throw e"
  by (rule ext) (simp add: io_bind_def io_throw_def)

lemma io_bind_lift_Inr: "io_bind (io_lift (Inr x)) f = f x"
  by (rule ext) (simp add: io_bind_def io_lift_def split: prod.splits)

lemma io_bind_lift_Inl: "io_bind (io_lift (Inl e)) f = io_throw e"
  by (rule ext) (simp add: io_bind_def io_lift_def io_throw_def)

lemmas io_simps = io_bind_return io_bind_throw io_bind_lift_Inr io_bind_lift_Inl

subsection \<open>Foreign assets\<close>

text \<open>
  Claim C2. When the chain asked about is the token's home chain (the two
  references have the same numeric id, whether given by name or by id),
  \<open>getForeignAsset\<close> returns the token's address as it is, leaves the world as it
  was and makes no call at all. When the ids differ (and the chain has a bridge
  contract and the home context can format the address), it makes exactly one
  query after the formatting: \<^verbatim>\<open>wrappedAsset\<close> on the bridge contract of the
  chain asked about, with the home chain's id and the formatted address, and
  its result is that query's result, the zero address read as nothing.
\<close>

theorem getForeignAsset_home_chain:
  "(toChainId env chain = toChainId env (ChainName (tid_chain t))
      \<longrightarrow> getForeignAsset env t chain w = (Inr (Some (tid_address t)), w, []))
   \<and> (toChainId env chain \<noteq> toChainId env (ChainName (tid_chain t))
      \<longrightarrow> mustGetBridge env chain = Inr b
      \<longrightarrow> formatAssetAddress env (getContext env (ChainName (tid_chain t))) (tid_address t) w
            = (Inr a, w1, evs)
      \<longrightarrow> (\<exists>r w2 oc.
            bridge_wrappedAsset env b (toChainId env (ChainName (tid_chain t))) a w1 = (r, w2)
            \<and> getForeignAsset env t chain w
                = ((case r of
                      Inl e \<Rightarrow> Inl e
                    | Inr f \<Rightarrow> Inr (if f = AddressZero then None else Some f)),
                   w2,
                   evs @ [(WrappedAsset b (toChainId env (ChainName (tid_chain t))) a, oc)])))"
  by (auto simp: getForeignAsset_def Let_def io_simps io_return_def io_bind_def io_call_def
      arrayify_def io_lift_def split: sum.splits prod.splits)

theorem getForeignAsset_home_chain_witness:
  "getForeignAsset (ref_env (ref_receipt [])) ref_tokenId (ChainId 2) ref_world0
     = (Inr (Some ref_token), ref_world0, [])
   \<and> (\<exists>oc. getForeignAsset (ref_env (ref_receipt [])) ref_tokenId (ChainName ''bsc'') ref_world0
         = (Inr (Some ref_wrapped), ref_world0, [(WrappedAsset ref_bridge 2 ref_token_bytes, oc)]))"
proof -
  let ?E = "ref_env (ref_receipt [])"
  have home: "toChainId ?E (ChainId 2) = toChainId ?E (ChainName (tid_chain ref_tokenId))"
    by code_simp
  have away: "toChainId ?E (ChainName ''bsc'') \<noteq> toChainId ?E (ChainName (tid_chain ref_tokenId))"
    by code_simp
  have bridge: "mustGetBridge ?E (ChainName ''bsc'') = Inr ref_bridge"
    by code_simp
  have fmt: "formatAssetAddress ?E (getContext ?E (ChainName (tid_chain ref_tokenId)))
               (tid_address ref_tokenId) ref_world0 = (Inr ref_token_bytes, ref_world0, [])"
    by code_simp
  have query: "bridge_wrappedAsset ?E ref_bridge 2 ref_token_bytes ref_world0
                 = (Inr ref_wrapped, ref_world0)"
    by code_simp
  have id2: "toChainId ?E (ChainName (tid_chain ref_tokenId)) = 2"
    by code_simp
  have ne: "ref_wrapped \<noteq> AddressZero"
    by code_simp
  have first: "getForeignAsset ?E ref_tokenId (ChainId 2) ref_world0
                 = (Inr (Some (tid_address ref_tokenId)), ref_world0, [])"
    using getForeignAsset_home_chain [of ?E "ChainId 2" ref_tokenId ref_world0] home by blast
  have second: "\<exists>r w2 oc.
      bridge_wrappedAsset ?E ref_bridge (toChainId ?E (ChainName (tid_chain ref_tokenId)))
        ref_token_bytes ref_world0 = (r, w2)
      \<and> getForeignAsset ?E ref_tokenId (ChainName ''bsc'') ref_world0
          = ((case r of
                Inl e \<Rightarrow> Inl e
              | Inr f \<Rightarrow> Inr (if f = AddressZero then None else Some f)),
             w2,
             [] @ [(WrappedAsset ref_bridge (toChainId ?E (ChainName (tid_chain ref_tokenId)))
                      ref_token_bytes, oc)])"
    using getForeignAsset_home_chain
            [of ?E "ChainName ''bsc''" ref_tokenId ref_world0 ref_bridge ref_token_bytes
               ref_world0 "[]"]
          away bridge fmt
    by blast
  have addr: "tid_address ref_tokenId = ref_token"
    by (simp add: ref_tokenId_def)
  from first second show ?thesis
    by (auto simp: query id2 ne addr)
qed

text \<open>
  \<open>mustGetForeignAsset\<close> ends in the world and with the trace of
  \<open>getForeignAsset\<close>. It passes an error on, fails with the error of an
  unregistered token when nothing was returned, and otherwise returns the address
  that was returned; \<^verbatim>\<open>!addr\<close> holds of the empty text too, which no token
  has for an address.
\<close>

lemma mustGetForeignAsset_run:
  "mustGetForeignAsset env t chain w
     = (case getForeignAsset env t chain w of
          (Inl e, w', evs) \<Rightarrow> (Inl e, w', evs)
        | (Inr None, w', evs) \<Rightarrow> (Inl TokenNotRegistered, w', evs)
        | (Inr (Some addr), w', evs) \<Rightarrow>
            (if addr = [] then Inl TokenNotRegistered else Inr addr, w', evs))"
  by (simp add: mustGetForeignAsset_def io_bind_def io_throw_def io_return_def
      split: prod.splits sum.splits option.splits)

text \<open>
  Claim C3. Where the asset has never been bridged to the chain, that is, where
  the query of the chain's bridge contract yields the zero address,
  \<open>getForeignAsset\<close> returns nothing, as a value and not as an error, and
  \<open>mustGetForeignAsset\<close> fails with the error of an unregistered token, after
  that same query. And whenever \<open>getForeignAsset\<close> returns, nothing or an
  address (one that is not the empty text), \<open>mustGetForeignAsset\<close> on the same
  inputs fails with the error of an unregistered token exactly when nothing was
  returned, and otherwise returns the same address, in the same world and with
  the same trace; an error of \<open>getForeignAsset\<close> is passed on as it is.
\<close>

theorem mustGetForeignAsset_follows_getForeignAsset:
  "(toChainId env chain \<noteq> toChainId env (ChainName (tid_chain t))
      \<longrightarrow> mustGetBridge env chain = Inr b
      \<longrightarrow> formatAssetAddress env (getContext env (ChainName (tid_chain t))) (tid_address t) w
            = (Inr a, w1, evs)
      \<longrightarrow> bridge_wrappedAsset env b (toChainId env (ChainName (tid_chain t))) a w1
            = (Inr AddressZero, w2)
      \<longrightarrow> getForeignAsset env t chain w
            = (Inr None, w2,
               evs @ [(WrappedAsset b (toChainId env (ChainName (tid_chain t))) a, Succeeded)])
          \<and> mustGetForeignAsset env t chain w
            = (Inl TokenNotRegistered, w2,
               evs @ [(WrappedAsset b (toChainId env (ChainName (tid_chain t))) a, Succeeded)]))
   \<and> (getForeignAsset env t chain w = (Inr found, w', evs')
      \<longrightarrow> found \<noteq> Some []
      \<longrightarrow> (fst (mustGetForeignAsset env t chain w) = Inl TokenNotRegistered \<longleftrightarrow> found = None)
          \<and> (\<forall>addr. found = Some addr
                \<longrightarrow> mustGetForeignAsset env t chain w = (Inr addr, w', evs'))
          \<and> snd (mustGetForeignAsset env t chain w) = (w', evs'))
   \<and> (getForeignAsset env t chain w = (Inl e, w', evs')
      \<longrightarrow> mustGetForeignAsset env t chain w = (Inl e, w', evs'))"
proof (intro conjI impI)
  assume "toChainId env chain \<noteq> toChainId env (ChainName (tid_chain t))"
    "mustGetBridge env chain = Inr b"
    "formatAssetAddress env (getContext env (ChainName (tid_chain t))) (tid_address t) w
       = (Inr a, w1, evs)"
    "bridge_wrappedAsset env b (toChainId env (ChainName (tid_chain t))) a w1
       = (Inr AddressZero, w2)"
  then show never: "getForeignAsset env t chain w
            = (Inr None, w2,
               evs @ [(WrappedAsset b (toChainId env (ChainName (tid_chain t))) a, Succeeded)])"
    by (simp add: getForeignAsset_def Let_def io_return_def io_bind_def io_call_def
        arrayify_def io_lift_def)
  then show "mustGetForeignAsset env t chain w
            = (Inl TokenNotRegistered, w2,
               evs @ [(WrappedAsset b (toChainId env (ChainName (tid_chain t))) a, Succeeded)])"
    by (simp add: mustGetForeignAsset_run)
next
  assume run: "getForeignAsset env t chain w = (Inr found, w', evs')" and "found \<noteq> Some []"
  then show "fst (mustGetForeignAsset env t chain w) = Inl TokenNotRegistered \<longleftrightarrow> found = None"
    by (cases found) (simp_all add: mustGetForeignAsset_run)
  from run \<open>found \<noteq> Some []\<close>
  show "\<forall>addr. found = Some addr \<longrightarrow> mustGetForeignAsset env t chain w = (Inr addr, w', evs')"
    by (simp add: mustGetForeignAsset_run)
  from run show "snd (mustGetForeignAsset env t chain w) = (w', evs')"
    by (cases found) (simp_all add: mustGetForeignAsset_run)
next
  assume "getForeignAsset env t chain w = (Inl e, w', evs')"
  then show "mustGetForeignAsset env t chain w = (Inl e, w', evs')"
    by (simp add: mustGetForeignAsset_run)
qed

theorem mustGetForeignAsset_follows_getForeignAsset_witness:
  "getForeignAsset (ref_env (ref_receipt [])) \<lparr>tid_chain = ''bsc'', tid_address = ref_token\<rparr>
       (ChainId 2) ref_world0
     = (Inr None, ref_world0, [(WrappedAsset ref_bridge 4 ref_token_bytes, Succeeded)])
   \<and> mustGetForeignAsset (ref_env (ref_receipt [])) \<lparr>tid_chain = ''bsc'', tid_address = ref_token\<rparr>
       (ChainId 2) ref_world0
     = (Inl TokenNotRegistered, ref_world0, [(WrappedAsset ref_bridge 4 ref_token_bytes, Succeeded)])
   \<and> getForeignAsset (ref_env (ref_receipt [])) ref_tokenId (ChainName ''bsc'') ref_world0
     = (Inr (Some ref_wrapped), ref_world0, [(WrappedAsset ref_bridge 2 ref_token_bytes, Succeeded)])
   \<and> mustGetForeignAsset (ref_env (ref_receipt [])) ref_tokenId (ChainName ''bsc'') ref_world0
     = (Inr ref_wrapped, ref_world0, [(WrappedAsset ref_bridge 2 ref_token_bytes, Succeeded)])"
proof -
  let ?E = "ref_env (ref_receipt [])"
  let ?t = "\<lparr>tid_chain = ''bsc'', tid_address = ref_token\<rparr>"
  have away: "toChainId ?E (ChainId 2) \<noteq> toChainId ?E (ChainName (tid_chain ?t))"
    by code_simp
  have id4: "toChainId ?E (ChainName ''bsc'') = 4"
    by code_simp
  have bridge: "mustGetBridge ?E (ChainId 2) = Inr ref_bridge"
    by code_simp
  have fmt: "formatAssetAddress ?E (getContext ?E (ChainName (tid_chain ?t)))
               (tid_address ?t) ref_world0 = (Inr ref_token_bytes, ref_world0, [])"
    by code_simp
  have query: "bridge_wrappedAsset ?E ref_bridge (toChainId ?E (ChainName (tid_chain ?t)))
                 ref_token_bytes ref_world0 = (Inr AddressZero, ref_world0)"
    by code_simp
  from mustGetForeignAsset_follows_getForeignAsset
         [where env = ?E and chain = "ChainId 2" and t = ?t and b = ref_bridge and w = ref_world0
            and a = ref_token_bytes and ?w1.0 = ref_world0 and evs = "[]" and ?w2.0 = ref_world0,
          THEN conjunct1]
       away bridge fmt query
  have never: "getForeignAsset ?E ?t (ChainId 2) ref_world0
                 = (Inr None, ref_world0, [(WrappedAsset ref_bridge 4 ref_token_bytes, Succeeded)])
               \<and> mustGetForeignAsset ?E ?t (ChainId 2) ref_world0
                 = (Inl TokenNotRegistered, ref_world0,
                    [(WrappedAsset ref_bridge 4 ref_token_bytes, Succeeded)])"
    by (simp add: id4)
  have got: "getForeignAsset ?E ref_tokenId (ChainName ''bsc'') ref_world0
               = (Inr (Some ref_wrapped), ref_world0,
                  [(WrappedAsset ref_bridge 2 ref_token_bytes, Succeeded)])"
    by code_simp
  have "Some ref_wrapped \<noteq> Some []"
    by (simp add: ref_wrapped_def)
  with mustGetForeignAsset_follows_getForeignAsset
         [where env = ?E and chain = "ChainName ''bsc''" and t = ref_tokenId and w = ref_world0
            and found = "Some ref_wrapped" and w' = ref_world0
            and evs' = "[(WrappedAsset ref_bridge 2 ref_token_bytes, Succeeded)]",
          THEN conjunct2, THEN conjunct1]
       got
  have must: "mustGetForeignAsset ?E ref_tokenId (ChainName ''bsc'') ref_world0
               = (Inr ref_wrapped, ref_world0,
                  [(WrappedAsset ref_bridge 2 ref_token_bytes, Succeeded)])"
    by simp
  from never got must show ?thesis
    by simp
qed

subsection \<open>The signer comes first\<close>

text \<open>
  Claim C7. When no signer is configured for the chain, \<open>send\<close>, \<open>sendWithRelay\<close>
  and \<open>redeem\<close> fail with the no-signer error, the world is as it was and the
  trace is empty: no allowance query, dry run, foreign-asset lookup or submission
  was made.
\<close>

theorem no_signer_fails_before_any_call:
  assumes "getSigner env chain = None"
  shows "send env token amount chain senderAddress recipientChain recipientAddress relayerFee ov w
           = (Inl (NoSigner chain), w, [])
       \<and> sendWithRelay env token amount toNativeToken chain senderAddress recipientChain
           recipientAddress ov w = (Inl (NoSigner chain), w, [])
       \<and> redeem env chain signedVAA ov w = (Inl (NoSigner chain), w, [])"
  using assms by (simp add: send_def sendWithRelay_def redeem_def io_throw_def)

theorem no_signer_fails_before_any_call_witness:
  "send (ref_env (ref_receipt [])) (Token ref_tokenId) ''500'' (ChainName ''bsc'') ref_wallet
       (ChainName ''ethereum'') ref_wallet (NumberV 0) no_overrides ref_world0
     = (Inl (NoSigner (ChainName ''bsc'')), ref_world0, [])
   \<and> sendWithRelay (ref_env (ref_receipt [])) (Token ref_tokenId) ''500'' ''10'' (ChainName ''bsc'')
       ref_wallet (ChainName ''ethereum'') ref_wallet no_overrides ref_world0
     = (Inl (NoSigner (ChainName ''bsc'')), ref_world0, [])
   \<and> redeem (ref_env (ref_receipt [])) (ChainName ''bsc'') [1, 2, 3] no_overrides ref_world0
     = (Inl (NoSigner (ChainName ''bsc'')), ref_world0, [])"
proof -
  have none: "getSigner (ref_env (ref_receipt [])) (ChainName ''bsc'') = None"
    by (simp add: ref_env_def ref_toChainId_def)
  from no_signer_fails_before_any_call [OF none] show ?thesis
    by simp
qed

subsection \<open>The address codec\<close>

text \<open>
  Claim C8. The round trip \<open>parseAddress (formatAddress a) = a\<close> is what the codec
  is for. It fails for a 20-byte address that starts with a zero byte, such as the
  deposit contract's below:
  \<open>formatAddress\<close> pads it to 32 bytes, \<open>stripZeros\<close> then drops the address's
  own leading zero bytes with the padding, and \<open>getAddress\<close> refuses the
  shortened text.
\<close>

theorem parseAddress_formatAddress_leading_zero_byte:
  "(case formatAddress ''0x00000000219ab540356cBB839Cbe05303d7705Fa'' of
      Inl e \<Rightarrow> Inl e
    | Inr b \<Rightarrow> parseAddress lib (Bytes b))
   = Inl (LibraryError ''invalid address'')"
  by code_simp

text \<open>
  The round trip of a 20-byte address fails exactly when the address starts with a
  zero byte; otherwise it returns the address in its checksum casing.
\<close>

lemma hex_char_table:
  "list_all (\<lambda>n. hex_val (hex_char n) = Some n \<and> hex_char n \<notin> set ''ABCDEF'') [0..<16]"
  by code_simp

lemma hex_val_hex_char:
  assumes "n < 16"
  shows "hex_val (hex_char n) = Some n" and "hex_char n \<notin> set ''ABCDEF''"
proof -
  from assms have "n \<in> set [0..<16]" by simp
  with hex_char_table
  have "hex_val (hex_char n) = Some n \<and> hex_char n \<notin> set ''ABCDEF''"
    unfolding list_all_iff by blast
  then show "hex_val (hex_char n) = Some n" and "hex_char n \<notin> set ''ABCDEF''"
    by simp_all
qed

lemma byte_nibbles: "unat (b :: byte) div 16 < 16" "unat b mod 16 < 16"
proof -
  have "unat b < 2 ^ LENGTH(8)"
    by (rule unsigned_less)
  then show "unat b div 16 < 16" by simp
  show "unat b mod 16 < 16" by simp
qed

lemma hex_pairs_byte_hex: "hex_pairs (byte_hex b @ rest) = map_option ((#) b) (hex_pairs rest)"
proof -
  have "(of_nat (16 * (unat b div 16) + unat b mod 16) :: byte) = b"
    by simp
  then show ?thesis
    by (simp add: byte_hex_def hex_val_hex_char byte_nibbles split: option.splits)
qed

lemma hex_pairs_hexlify: "hex_pairs (concat (map byte_hex bs)) = Some bs"
  by (induction bs) (simp_all add: hex_pairs_byte_hex)

lemma hex_digits_hexlify: "list_all is_hex_digit (concat (map byte_hex bs))"
  by (induction bs) (simp_all add: byte_hex_def is_hex_digit_def hex_val_hex_char byte_nibbles)

lemma length_hexlify_digits: "length (concat (map byte_hex bs)) = 2 * length bs"
  by (induction bs) (simp_all add: byte_hex_def)

lemma list_ex_hexlify_digits:
  assumes "\<And>b. \<not> list_ex P (byte_hex b)"
  shows "\<not> list_ex P (concat (map byte_hex bs))"
  using assms by (induction bs) simp_all

lemma lower_case_hexlify: "\<not> list_ex (\<lambda>c. c \<in> set ''ABCDEF'') (concat (map byte_hex bs))"
proof (rule list_ex_hexlify_digits)
  fix b :: byte
  from hex_val_hex_char(2) [OF byte_nibbles(1), of b] hex_val_hex_char(2) [OF byte_nibbles(2), of b]
  show "\<not> list_ex (\<lambda>c. c \<in> set ''ABCDEF'') (byte_hex b)"
    by (simp add: byte_hex_def)
qed

lemma arrayify_hexlify: "arrayify (Hex (hexlify bs)) = Inr bs"
  by (simp add: arrayify_def is_hex_string_def hexlify_def hex_pairs_hexlify hex_digits_hexlify)

lemma formatAddress_hexlify:
  "length bs \<le> 32 \<Longrightarrow> formatAddress (hexlify bs) = Inr (replicate (32 - length bs) 0 @ bs)"
  by (simp add: formatAddress_def zeroPad_def arrayify_hexlify)

lemma getAddress_hexlify:
  "getAddress lib (hexlify bs)
     = (if length bs = 20 then Inr (getChecksumAddress lib (hexlify bs))
        else Inl (LibraryError ''invalid address''))"
proof -
  have "\<not> is_mixed_case (hexlify bs)"
    using lower_case_hexlify [of bs] by (simp add: is_mixed_case_def hexlify_def)
  then show ?thesis
    by (simp add: getAddress_def is_address_text_def is_icap_text_def hexlify_def
        length_hexlify_digits hex_digits_hexlify Let_def)
qed

lemma stripZeros_padded:
  "stripZeros (Bytes (replicate n 0 @ bs)) = Inr (dropWhile (\<lambda>b. b = 0) bs)"
  by (simp add: stripZeros_def arrayify_def dropWhile_append)

lemma parseAddress_formatAddress_round_trip:
  assumes "length bs = 20"
  shows "(case formatAddress (hexlify bs) of
            Inl e \<Rightarrow> Inl e
          | Inr b \<Rightarrow> parseAddress lib (Bytes b))
         = (if hd bs = 0 then Inl (LibraryError ''invalid address'')
            else Inr (getChecksumAddress lib (hexlify bs)))"
proof -
  from assms obtain b rest where bs: "bs = b # rest"
    by (cases bs) simp_all
  show ?thesis
  proof (cases "b = 0")
    case True
    have "length (dropWhile (\<lambda>b. b = 0) rest) \<le> length rest"
      by (rule length_dropWhile_le)
    with assms bs have "length (dropWhile (\<lambda>b. b = 0) bs) \<noteq> 20"
      using True by simp
    with assms bs True show ?thesis
      by (simp add: formatAddress_hexlify parseAddress_def stripZeros_padded getAddress_hexlify)
  next
    case False
    with assms bs show ?thesis
      by (simp add: formatAddress_hexlify parseAddress_def stripZeros_padded getAddress_hexlify)
  qed
qed


subsection \<open>Runs\<close>

lemma not_isl_projr: "\<not> isl r \<Longrightarrow> r = Inr (projr r)"
  by (cases r) simp_all

lemma io_bind_cases:
  assumes "io_bind m f w = (r, w', evs)"
  obtains (failed) e where "m w = (Inl e, w', evs)" and "r = Inl e"
  | (continued) x w1 evs1 evs2 where "m w = (Inr x, w1, evs1)" and "f x w1 = (r, w', evs2)"
      and "evs = evs1 @ evs2"
  using assms by (auto simp: io_bind_def split: prod.splits sum.splits)

subsection \<open>Approval\<close>

text \<open>The runs of \<open>approve\<close>, call by call.\<close>

lemma approve_run:
  "approve env chain c t amount ov w =
     (case getSigner env chain of
        None \<Rightarrow> (Inl (NoSigner chain), w, [])
      | Some sg \<Rightarrow>
          (case signer_getAddress env sg w of
             (Inl e, w1) \<Rightarrow> (Inl e, w1, [(SignerGetAddress sg, Failed)])
           | (Inr owner, w1) \<Rightarrow>
               if \<not> tokenContractAvailable env t
               then (Inl (TokenContractNotAvailable t), w1, [(SignerGetAddress sg, Succeeded)])
               else
                 (case token_allowance env t owner c w1 of
                    (Inl e, w2) \<Rightarrow>
                      (Inl e, w2, [(SignerGetAddress sg, Succeeded), (Allowance t owner c, Failed)])
                  | (Inr approved, w2) \<Rightarrow>
                      (case toBN (approveAmount_of amount) of
                         Inl e \<Rightarrow>
                           (Inl e, w2,
                            [(SignerGetAddress sg, Succeeded), (Allowance t owner c, Succeeded)])
                       | Inr target \<Rightarrow>
                           if approved < target then
                             (case token_approve env t sg c (approveAmount_of amount) ov w2 of
                                (Inl e, w3) \<Rightarrow>
                                  (Inl e, w3,
                                   [(SignerGetAddress sg, Succeeded), (Allowance t owner c, Succeeded),
                                    (Approve t sg c (approveAmount_of amount) ov, Failed)])
                              | (Inr tx, w3) \<Rightarrow>
                                  (case tx_wait env tx w3 of
                                     (Inl e, w4) \<Rightarrow>
                                       (Inl e, w4,
                                        [(SignerGetAddress sg, Succeeded),
                                         (Allowance t owner c, Succeeded),
                                         (Approve t sg c (approveAmount_of amount) ov, Succeeded),
                                         (Wait tx, Failed)])
                                   | (Inr rc, w4) \<Rightarrow>
                                       (Inr (), w4,
                                        [(SignerGetAddress sg, Succeeded),
                                         (Allowance t owner c, Succeeded),
                                         (Approve t sg c (approveAmount_of amount) ov, Succeeded),
                                         (Wait tx, Succeeded)])))
                           else
                             (Inr (), w2,
                              [(SignerGetAddress sg, Succeeded), (Allowance t owner c, Succeeded)])))))"
  by (simp add: approve_def Let_def io_bind_def io_call_def io_throw_def io_return_def io_lift_def
      split: option.splits prod.splits sum.splits)




text \<open>
  An amount given as hexadecimal text with the prefix \<^verbatim>\<open>0X\<close> makes the
  comparison throw, after the allowance query and before any approval.
\<close>

lemma approve_malformed_hex_amount:
  "approve (ref_env (ref_receipt [])) (ChainId 2) ref_bridge ref_token (Some (StringV ''0X10''))
       no_overrides ref_world0
     = (Inl (LibraryError ''Invalid character''), ref_world0,
        [(SignerGetAddress ''wallet'', Succeeded),
         (Allowance ref_token ref_wallet ref_bridge, Succeeded)])"
  by code_simp



subsection \<open>Dry runs\<close>

text \<open>
  The runs of \<open>prepareSend\<close> and \<open>prepareRedeem\<close> from the dry run on, given
  the steps before it: the dry run is made with the arguments of the transfer,
  its failure is the failure of the operation, and only after its success is the
  transaction constructed, from the same arguments and a nonce drawn anew.
\<close>

lemma prepareSend_token_run:
  assumes "BigNumber_from (StringV amount) = Inr amountBN"
    and "mustGetBridge env sendingChain = Inr bridge"
    and "recipientAccount env (Token t) bridge sendingChain recipientChain recipientAddress w
           = (Inr account, w1, evs1)"
    and "mustGetForeignAsset env t sendingChain w1 = (Inr tokenAddr, w2, evs2)"
    and "context_formatAddress env (getContext env recipientChain) account = Inr recipient"
    and "createNonce env w2 = (nonce, w3)"
    and "contract_callStatic env bridge
           (TransferTokens tokenAddr amountBN (toChainId env recipientChain) recipient relayerFee nonce)
           (ov\<lparr>ov_from := Some senderAddress\<rparr>) w3 = (sim, w4)"
    and "createNonce env w4 = (nonce2, w5)"
    and "contract_populate env bridge
           (TransferTokens tokenAddr amountBN (toChainId env recipientChain) recipient relayerFee nonce2)
           ov w5 = (built, w6)"
  shows "prepareSend env (Token t) amount sendingChain senderAddress recipientChain
           recipientAddress relayerFee ov w
         = (case sim of
              Inl e \<Rightarrow>
                (Inl e, w4,
                 evs1 @ evs2
                 @ [(CallStatic bridge
                       (TransferTokens tokenAddr amountBN (toChainId env recipientChain) recipient
                          relayerFee nonce)
                       (ov\<lparr>ov_from := Some senderAddress\<rparr>), Failed)])
            | Inr u \<Rightarrow>
                (built, w6,
                 evs1 @ evs2
                 @ [(CallStatic bridge
                       (TransferTokens tokenAddr amountBN (toChainId env recipientChain) recipient
                          relayerFee nonce)
                       (ov\<lparr>ov_from := Some senderAddress\<rparr>), Succeeded),
                    (Populate bridge
                       (TransferTokens tokenAddr amountBN (toChainId env recipientChain) recipient
                          relayerFee nonce2)
                       ov, outcome_of built)]))"
  using assms
  by (simp add: prepareSend_def Let_def io_bind_def io_call_def io_lift_def io_nonce_def
      outcome_of_def split: sum.splits)

lemma prepareSend_native_run:
  assumes "BigNumber_from (StringV amount) = Inr amountBN"
    and "mustGetBridge env sendingChain = Inr bridge"
    and "recipientAccount env NATIVE bridge sendingChain recipientChain recipientAddress w
           = (Inr account, w1, evs1)"
    and "context_formatAddress env (getContext env recipientChain) account = Inr recipient"
    and "createNonce env w1 = (nonce, w3)"
    and "contract_callStatic env bridge
           (WrapAndTransferETH (toChainId env recipientChain) recipient relayerFee nonce)
           (ov\<lparr>ov_value := Some (BigNumberV amountBN), ov_from := Some senderAddress\<rparr>) w3
           = (sim, w4)"
    and "createNonce env w4 = (nonce2, w5)"
    and "contract_populate env bridge
           (WrapAndTransferETH (toChainId env recipientChain) recipient relayerFee nonce2)
           (ov\<lparr>ov_value := Some (BigNumberV amountBN)\<rparr>) w5 = (built, w6)"
  shows "prepareSend env NATIVE amount sendingChain senderAddress recipientChain
           recipientAddress relayerFee ov w
         = (case sim of
              Inl e \<Rightarrow>
                (Inl e, w4,
                 evs1
                 @ [(CallStatic bridge
                       (WrapAndTransferETH (toChainId env recipientChain) recipient relayerFee nonce)
                       (ov\<lparr>ov_value := Some (BigNumberV amountBN), ov_from := Some senderAddress\<rparr>),
                     Failed)])
            | Inr u \<Rightarrow>
                (built, w6,
                 evs1
                 @ [(CallStatic bridge
                       (WrapAndTransferETH (toChainId env recipientChain) recipient relayerFee nonce)
                       (ov\<lparr>ov_value := Some (BigNumberV amountBN), ov_from := Some senderAddress\<rparr>),
                     Succeeded),
                    (Populate bridge
                       (WrapAndTransferETH (toChainId env recipientChain) recipient relayerFee nonce2)
                       (ov\<lparr>ov_value := Some (BigNumberV amountBN)\<rparr>), outcome_of built)]))"
  using assms
  by (simp add: prepareSend_def Let_def io_bind_def io_call_def io_lift_def io_nonce_def
      outcome_of_def split: sum.splits)

lemma prepareRedeem_run:
  assumes "mustGetBridge env destChain = Inr bridge"
    and "contract_callStatic env bridge (CompleteTransfer signedVAA) ov w = (sim, w1)"
    and "contract_populate env bridge (CompleteTransfer signedVAA) ov w1 = (built, w2)"
  shows "prepareRedeem env destChain signedVAA ov w
         = (case sim of
              Inl e \<Rightarrow>
                (Inl e, w1, [(CallStatic bridge (CompleteTransfer signedVAA) ov, Failed)])
            | Inr u \<Rightarrow>
                (built, w2,
                 [(CallStatic bridge (CompleteTransfer signedVAA) ov, Succeeded),
                  (Populate bridge (CompleteTransfer signedVAA) ov, outcome_of built)]))"
  using assms
  by (simp add: prepareRedeem_def io_bind_def io_call_def io_lift_def outcome_of_def
      split: sum.splits)

lemma prepareSend_dry_run:
  "prepareSend env token amount sc sender rc ra fee ov w = (r, w', evs)
   \<Longrightarrow> dry_run_precedes (\<lambda>ov. ov\<lparr>ov_from := Some sender\<rparr>) None evs
       \<and> (\<forall>tx. r = Inr tx \<longrightarrow> (\<exists>pre b c ov'. evs = pre @ [(Populate b c ov', Succeeded)]))"
proof (cases token)
  case NATIVE
  assume "prepareSend env token amount sc sender rc ra fee ov w = (r, w', evs)"
  with NATIVE show ?thesis
    by (auto simp: prepareSend_def recipientAccount_def io_nonce_def Let_def
       io_bind_def io_call_def io_lift_def io_return_def io_throw_def
      split: sum.splits prod.splits if_splits)
next
  case (Token t)
  assume "prepareSend env token amount sc sender rc ra fee ov w = (r, w', evs)"
  with Token show ?thesis
    by (auto simp: prepareSend_def recipientAccount_def mustGetForeignAsset_def getForeignAsset_def
       formatAssetAddress_def io_nonce_def Let_def
       io_bind_def io_call_def io_lift_def io_return_def io_throw_def
      split: sum.splits prod.splits option.splits if_splits)
qed

lemma prepareRedeem_dry_run:
  "prepareRedeem env destChain signedVAA ov w = (r, w', evs)
   \<Longrightarrow> dry_run_precedes (\<lambda>ov. ov) None evs
       \<and> (\<forall>tx. r = Inr tx
            \<longrightarrow> (\<exists>pre b. evs = pre @ [(Populate b (CompleteTransfer signedVAA) ov, Succeeded)]))"
  by (auto simp: prepareRedeem_def io_bind_def io_call_def io_lift_def
      split: sum.splits prod.splits)

text \<open>
  Claim C5. In \<open>prepareSend\<close> for a token, once the amount is read, the sending
  chain's bridge contract is found, the receiving account and the token's address
  on the sending chain are determined and the recipient is formatted, the next
  call is the dry run \<^verbatim>\<open>callStatic.transferTokens\<close> on that bridge contract with
  that token address, that amount, the recipient chain's id, that recipient, the
  relayer fee, a nonce, and the overrides with \<^verbatim>\<open>from\<close> set to the sender.
  If the dry run fails, \<open>prepareSend\<close> fails with its error and constructs
  nothing. If it succeeds, the next and last call constructs the transaction
  (\<^verbatim>\<open>populateTransaction.transferTokens\<close>) on the same contract with the same
  arguments, but for a nonce drawn anew and the overrides as given, and its
  result is the result of \<open>prepareSend\<close>. The same holds for the native asset,
  with \<^verbatim>\<open>wrapAndTransferETH\<close> and the amount as the \<^verbatim>\<open>value\<close> of the overrides,
  and for \<open>prepareRedeem\<close>, with \<^verbatim>\<open>completeTransfer\<close> of the signed
  attestation on the destination chain's bridge contract, where the dry run and
  the construction have the very same arguments. And in every run of the two
  operations, however it ends, each construction of a transaction comes right after
  a dry run that succeeded, on the same contract and of the same call up to the
  nonce, and a transaction that is returned is one so constructed.
\<close>

theorem dry_run_before_construction:
  "(BigNumber_from (StringV amount) = Inr amountBN
      \<longrightarrow> mustGetBridge env sendingChain = Inr bridge
      \<longrightarrow> recipientAccount env (Token t) bridge sendingChain recipientChain recipientAddress w
            = (Inr account, w1, evs1)
      \<longrightarrow> mustGetForeignAsset env t sendingChain w1 = (Inr tokenAddr, w2, evs2)
      \<longrightarrow> context_formatAddress env (getContext env recipientChain) account = Inr recipient
      \<longrightarrow> createNonce env w2 = (nonce, w3)
      \<longrightarrow> contract_callStatic env bridge
            (TransferTokens tokenAddr amountBN (toChainId env recipientChain) recipient relayerFee
               nonce)
            (ov\<lparr>ov_from := Some senderAddress\<rparr>) w3 = (sim, w4)
      \<longrightarrow> createNonce env w4 = (nonce2, w5)
      \<longrightarrow> contract_populate env bridge
            (TransferTokens tokenAddr amountBN (toChainId env recipientChain) recipient relayerFee
               nonce2)
            ov w5 = (built, w6)
      \<longrightarrow> prepareSend env (Token t) amount sendingChain senderAddress recipientChain
            recipientAddress relayerFee ov w
          = (case sim of
               Inl e \<Rightarrow>
                 (Inl e, w4,
                  evs1 @ evs2
                  @ [(CallStatic bridge
                        (TransferTokens tokenAddr amountBN (toChainId env recipientChain) recipient
                           relayerFee nonce)
                        (ov\<lparr>ov_from := Some senderAddress\<rparr>), Failed)])
             | Inr u \<Rightarrow>
                 (built, w6,
                  evs1 @ evs2
                  @ [(CallStatic bridge
                        (TransferTokens tokenAddr amountBN (toChainId env recipientChain) recipient
                           relayerFee nonce)
                        (ov\<lparr>ov_from := Some senderAddress\<rparr>), Succeeded),
                     (Populate bridge
                        (TransferTokens tokenAddr amountBN (toChainId env recipientChain) recipient
                           relayerFee nonce2)
                        ov, outcome_of built)])))
   \<and> (BigNumber_from (StringV amount) = Inr amountBN
      \<longrightarrow> mustGetBridge env sendingChain = Inr bridge
      \<longrightarrow> recipientAccount env NATIVE bridge sendingChain recipientChain recipientAddress w
            = (Inr account, w1, evs1)
      \<longrightarrow> context_formatAddress env (getContext env recipientChain) account = Inr recipient
      \<longrightarrow> createNonce env w1 = (nonce, w3)
      \<longrightarrow> contract_callStatic env bridge
            (WrapAndTransferETH (toChainId env recipientChain) recipient relayerFee nonce)
            (ov\<lparr>ov_value := Some (BigNumberV amountBN), ov_from := Some senderAddress\<rparr>) w3
            = (sim, w4)
      \<longrightarrow> createNonce env w4 = (nonce2, w5)
      \<longrightarrow> contract_populate env bridge
            (WrapAndTransferETH (toChainId env recipientChain) recipient relayerFee nonce2)
            (ov\<lparr>ov_value := Some (BigNumberV amountBN)\<rparr>) w5 = (built, w6)
      \<longrightarrow> prepareSend env NATIVE amount sendingChain senderAddress recipientChain
            recipientAddress relayerFee ov w
          = (case sim of
               Inl e \<Rightarrow>
                 (Inl e, w4,
                  evs1
                  @ [(CallStatic bridge
                        (WrapAndTransferETH (toChainId env recipientChain) recipient relayerFee nonce)
                        (ov\<lparr>ov_value := Some (BigNumberV amountBN),
                             ov_from := Some senderAddress\<rparr>), Failed)])
             | Inr u \<Rightarrow>
                 (built, w6,
                  evs1
                  @ [(CallStatic bridge
                        (WrapAndTransferETH (toChainId env recipientChain) recipient relayerFee nonce)
                        (ov\<lparr>ov_value := Some (BigNumberV amountBN),
                             ov_from := Some senderAddress\<rparr>), Succeeded),
                     (Populate bridge
                        (WrapAndTransferETH (toChainId env recipientChain) recipient relayerFee
                           nonce2)
                        (ov\<lparr>ov_value := Some (BigNumberV amountBN)\<rparr>), outcome_of built)])))
   \<and> (mustGetBridge env destChain = Inr destBridge
      \<longrightarrow> contract_callStatic env destBridge (CompleteTransfer signedVAA) ov w = (sim, w4)
      \<longrightarrow> contract_populate env destBridge (CompleteTransfer signedVAA) ov w4 = (built, w6)
      \<longrightarrow> prepareRedeem env destChain signedVAA ov w
          = (case sim of
               Inl e \<Rightarrow>
                 (Inl e, w4, [(CallStatic destBridge (CompleteTransfer signedVAA) ov, Failed)])
             | Inr u \<Rightarrow>
                 (built, w6,
                  [(CallStatic destBridge (CompleteTransfer signedVAA) ov, Succeeded),
                   (Populate destBridge (CompleteTransfer signedVAA) ov, outcome_of built)])))
   \<and> (prepareSend env token amount sendingChain senderAddress recipientChain recipientAddress
        relayerFee ov w = (r, w', evs)
      \<longrightarrow> dry_run_precedes (\<lambda>ov. ov\<lparr>ov_from := Some senderAddress\<rparr>) None evs
          \<and> (\<forall>tx. r = Inr tx \<longrightarrow> (\<exists>pre b c ov'. evs = pre @ [(Populate b c ov', Succeeded)])))
   \<and> (prepareRedeem env destChain signedVAA ov w = (r, w', evs)
      \<longrightarrow> dry_run_precedes (\<lambda>ov. ov) None evs
          \<and> (\<forall>tx. r = Inr tx
               \<longrightarrow> (\<exists>pre b. evs = pre @ [(Populate b (CompleteTransfer signedVAA) ov, Succeeded)])))"
proof (intro conjI impI)
  assume "BigNumber_from (StringV amount) = Inr amountBN"
    "mustGetBridge env sendingChain = Inr bridge"
    "recipientAccount env (Token t) bridge sendingChain recipientChain recipientAddress w
       = (Inr account, w1, evs1)"
    "mustGetForeignAsset env t sendingChain w1 = (Inr tokenAddr, w2, evs2)"
    "context_formatAddress env (getContext env recipientChain) account = Inr recipient"
    "createNonce env w2 = (nonce, w3)"
    "contract_callStatic env bridge
       (TransferTokens tokenAddr amountBN (toChainId env recipientChain) recipient relayerFee nonce)
       (ov\<lparr>ov_from := Some senderAddress\<rparr>) w3 = (sim, w4)"
    "createNonce env w4 = (nonce2, w5)"
    "contract_populate env bridge
       (TransferTokens tokenAddr amountBN (toChainId env recipientChain) recipient relayerFee nonce2)
       ov w5 = (built, w6)"
  then show "prepareSend env (Token t) amount sendingChain senderAddress recipientChain
            recipientAddress relayerFee ov w
          = (case sim of
               Inl e \<Rightarrow>
                 (Inl e, w4,
                  evs1 @ evs2
                  @ [(CallStatic bridge
                        (TransferTokens tokenAddr amountBN (toChainId env recipientChain) recipient
                           relayerFee nonce)
                        (ov\<lparr>ov_from := Some senderAddress\<rparr>), Failed)])
             | Inr u \<Rightarrow>
                 (built, w6,
                  evs1 @ evs2
                  @ [(CallStatic bridge
                        (TransferTokens tokenAddr amountBN (toChainId env recipientChain) recipient
                           relayerFee nonce)
                        (ov\<lparr>ov_from := Some senderAddress\<rparr>), Succeeded),
                     (Populate bridge
                        (TransferTokens tokenAddr amountBN (toChainId env recipientChain) recipient
                           relayerFee nonce2)
                        ov, outcome_of built)]))"
    by (rule prepareSend_token_run)
next
  assume "BigNumber_from (StringV amount) = Inr amountBN"
    "mustGetBridge env sendingChain = Inr bridge"
    "recipientAccount env NATIVE bridge sendingChain recipientChain recipientAddress w
       = (Inr account, w1, evs1)"
    "context_formatAddress env (getContext env recipientChain) account = Inr recipient"
    "createNonce env w1 = (nonce, w3)"
    "contract_callStatic env bridge
       (WrapAndTransferETH (toChainId env recipientChain) recipient relayerFee nonce)
       (ov\<lparr>ov_value := Some (BigNumberV amountBN), ov_from := Some senderAddress\<rparr>) w3
       = (sim, w4)"
    "createNonce env w4 = (nonce2, w5)"
    "contract_populate env bridge
       (WrapAndTransferETH (toChainId env recipientChain) recipient relayerFee nonce2)
       (ov\<lparr>ov_value := Some (BigNumberV amountBN)\<rparr>) w5 = (built, w6)"
  then show "prepareSend env NATIVE amount sendingChain senderAddress recipientChain
            recipientAddress relayerFee ov w
          = (case sim of
               Inl e \<Rightarrow>
                 (Inl e, w4,
                  evs1
                  @ [(CallStatic bridge
                        (WrapAndTransferETH (toChainId env recipientChain) recipient relayerFee nonce)
                        (ov\<lparr>ov_value := Some (BigNumberV amountBN),
                             ov_from := Some senderAddress\<rparr>), Failed)])
             | Inr u \<Rightarrow>
                 (built, w6,
                  evs1
                  @ [(CallStatic bridge
                        (WrapAndTransferETH (toChainId env recipientChain) recipient relayerFee nonce)
                        (ov\<lparr>ov_value := Some (BigNumberV amountBN),
                             ov_from := Some senderAddress\<rparr>), Succeeded),
                     (Populate bridge
                        (WrapAndTransferETH (toChainId env recipientChain) recipient relayerFee
                           nonce2)
                        (ov\<lparr>ov_value := Some (BigNumberV amountBN)\<rparr>), outcome_of built)]))"
    by (rule prepareSend_native_run)
next
  assume "mustGetBridge env destChain = Inr destBridge"
    "contract_callStatic env destBridge (CompleteTransfer signedVAA) ov w = (sim, w4)"
    "contract_populate env destBridge (CompleteTransfer signedVAA) ov w4 = (built, w6)"
  then show "prepareRedeem env destChain signedVAA ov w
          = (case sim of
               Inl e \<Rightarrow>
                 (Inl e, w4, [(CallStatic destBridge (CompleteTransfer signedVAA) ov, Failed)])
             | Inr u \<Rightarrow>
                 (built, w6,
                  [(CallStatic destBridge (CompleteTransfer signedVAA) ov, Succeeded),
                   (Populate destBridge (CompleteTransfer signedVAA) ov, outcome_of built)]))"
    by (rule prepareRedeem_run)
next
  assume "prepareSend env token amount sendingChain senderAddress recipientChain recipientAddress
        relayerFee ov w = (r, w', evs)"
  from prepareSend_dry_run [OF this]
  show "dry_run_precedes (\<lambda>ov. ov\<lparr>ov_from := Some senderAddress\<rparr>) None evs"
    and "\<forall>tx. r = Inr tx \<longrightarrow> (\<exists>pre b c ov'. evs = pre @ [(Populate b c ov', Succeeded)])"
    by simp_all
next
  assume "prepareRedeem env destChain signedVAA ov w = (r, w', evs)"
  from prepareRedeem_dry_run [OF this]
  show "dry_run_precedes (\<lambda>ov. ov) None evs"
    and "\<forall>tx. r = Inr tx
               \<longrightarrow> (\<exists>pre b. evs = pre @ [(Populate b (CompleteTransfer signedVAA) ov, Succeeded)])"
    by simp_all
qed

theorem dry_run_before_construction_witness:
  "prepareSend (ref_env (ref_receipt [])) (Token ref_tokenId) ''500'' (ChainName ''bsc'') ref_wallet
       (ChainName ''ethereum'') ref_wallet (NumberV 0) no_overrides
       \<lparr>rw_allowance = 500, rw_nonce = 0\<rparr>
     = (Inr \<lparr>ptx_to = ref_bridge,
              ptx_call = TransferTokens ref_wrapped (BN 500) 2 ref_wallet_bytes (NumberV 0) 1,
              ptx_overrides = no_overrides\<rparr>,
        \<lparr>rw_allowance = 500, rw_nonce = 2\<rparr>,
        [(WrappedAsset ref_bridge 2 ref_token_bytes, Succeeded),
         (CallStatic ref_bridge
            (TransferTokens ref_wrapped (BN 500) 2 ref_wallet_bytes (NumberV 0) 0)
            (no_overrides\<lparr>ov_from := Some ref_wallet\<rparr>), Succeeded),
         (Populate ref_bridge
            (TransferTokens ref_wrapped (BN 500) 2 ref_wallet_bytes (NumberV 0) 1)
            no_overrides, Succeeded)])
   \<and> prepareSend (ref_env (ref_receipt [])) (Token ref_tokenId) ''500'' (ChainName ''bsc'')
       ref_wallet (ChainName ''ethereum'') ref_wallet (NumberV 0) no_overrides
       \<lparr>rw_allowance = 0, rw_nonce = 0\<rparr>
     = (Inl (External ''insufficient allowance''),
        \<lparr>rw_allowance = 0, rw_nonce = 1\<rparr>,
        [(WrappedAsset ref_bridge 2 ref_token_bytes, Succeeded),
         (CallStatic ref_bridge
            (TransferTokens ref_wrapped (BN 500) 2 ref_wallet_bytes (NumberV 0) 0)
            (no_overrides\<lparr>ov_from := Some ref_wallet\<rparr>), Failed)])
   \<and> prepareSend (ref_env (ref_receipt [])) NATIVE ''500'' (ChainName ''ethereum'') ref_wallet
       (ChainName ''bsc'') ref_wallet (NumberV 0) no_overrides ref_world0
     = (Inr \<lparr>ptx_to = ref_bridge,
              ptx_call = WrapAndTransferETH 4 ref_wallet_bytes (NumberV 0) 1,
              ptx_overrides = no_overrides\<lparr>ov_value := Some (BigNumberV (BN 500))\<rparr>\<rparr>,
        \<lparr>rw_allowance = 0, rw_nonce = 2\<rparr>,
        [(CallStatic ref_bridge (WrapAndTransferETH 4 ref_wallet_bytes (NumberV 0) 0)
            (no_overrides\<lparr>ov_value := Some (BigNumberV (BN 500)), ov_from := Some ref_wallet\<rparr>),
          Succeeded),
         (Populate ref_bridge (WrapAndTransferETH 4 ref_wallet_bytes (NumberV 0) 1)
            (no_overrides\<lparr>ov_value := Some (BigNumberV (BN 500))\<rparr>), Succeeded)])
   \<and> prepareRedeem (ref_env (ref_receipt [])) (ChainId 2) [1, 2, 3] no_overrides ref_world0
     = (Inr \<lparr>ptx_to = ref_bridge, ptx_call = CompleteTransfer [1, 2, 3],
              ptx_overrides = no_overrides\<rparr>,
        ref_world0,
        [(CallStatic ref_bridge (CompleteTransfer [1, 2, 3]) no_overrides, Succeeded),
         (Populate ref_bridge (CompleteTransfer [1, 2, 3]) no_overrides, Succeeded)])
   \<and> prepareRedeem (ref_env (ref_receipt [])) (ChainId 2) [] no_overrides ref_world0
     = (Inl (External ''invalid attestation''), ref_world0,
        [(CallStatic ref_bridge (CompleteTransfer []) no_overrides, Failed)])
   \<and> dry_run_precedes (\<lambda>ov. ov\<lparr>ov_from := Some ref_wallet\<rparr>) None
        (snd (snd (prepareSend (ref_env (ref_receipt [])) (Token ref_tokenId) ''500''
           (ChainName ''bsc'') ref_wallet (ChainName ''ethereum'') ref_wallet (NumberV 0)
           no_overrides \<lparr>rw_allowance = 500, rw_nonce = 0\<rparr>)))
   \<and> dry_run_precedes (\<lambda>ov. ov) None
        (snd (snd (prepareRedeem (ref_env (ref_receipt [])) (ChainId 2) [1, 2, 3] no_overrides
           ref_world0)))"
proof -
  let ?E = "ref_env (ref_receipt [])"
  let ?wa = "\<lparr>rw_allowance = 500, rw_nonce = 0\<rparr>"
  let ?wa1 = "\<lparr>rw_allowance = 500, rw_nonce = 1\<rparr>"
  let ?wa2 = "\<lparr>rw_allowance = 500, rw_nonce = 2\<rparr>"
  let ?wb = "\<lparr>rw_allowance = 0, rw_nonce = 0\<rparr>"
  let ?wb1 = "\<lparr>rw_allowance = 0, rw_nonce = 1\<rparr>"
  let ?wb2 = "\<lparr>rw_allowance = 0, rw_nonce = 2\<rparr>"
  let ?asset = "[(WrappedAsset ref_bridge 2 ref_token_bytes, Succeeded)]"
  let ?tx = "\<lambda>c ov. \<lparr>ptx_to = ref_bridge, ptx_call = c, ptx_overrides = ov\<rparr>"
  let ?tok = "\<lambda>n. TransferTokens ref_wrapped (BN 500) 2 ref_wallet_bytes (NumberV 0) n"
  let ?nat = "\<lambda>n. WrapAndTransferETH 4 ref_wallet_bytes (NumberV 0) n"
  let ?from = "no_overrides\<lparr>ov_from := Some ref_wallet\<rparr>"
  let ?val = "no_overrides\<lparr>ov_value := Some (BigNumberV (BN 500))\<rparr>"
  let ?valfrom = "no_overrides\<lparr>ov_value := Some (BigNumberV (BN 500)), ov_from := Some ref_wallet\<rparr>"
  have amount: "BigNumber_from (StringV ''500'') = Inr (BN 500)" by code_simp
  have bridge: "mustGetBridge ?E (ChainName ''bsc'') = Inr ref_bridge"
    "mustGetBridge ?E (ChainName ''ethereum'') = Inr ref_bridge"
    "mustGetBridge ?E (ChainId 2) = Inr ref_bridge"
    by (simp_all add: ref_env_def)
  have ids: "toChainId ?E (ChainName ''ethereum'') = 2" "toChainId ?E (ChainName ''bsc'') = 4"
    by code_simp+
  have ctx: "getContext ?E (ChainName ''ethereum'') = ETH" "getContext ?E (ChainName ''bsc'') = ETH"
    by code_simp+
  have acc_tok: "recipientAccount ?E (Token ref_tokenId) ref_bridge (ChainName ''bsc'')
                   (ChainName ''ethereum'') ref_wallet w = (Inr ref_wallet, w, [])" for w
    by (simp add: recipientAccount_def Let_def ids io_return_def)
  have acc_nat: "recipientAccount ?E NATIVE ref_bridge (ChainName ''ethereum'')
                   (ChainName ''bsc'') ref_wallet w = (Inr ref_wallet, w, [])" for w
    by (simp add: recipientAccount_def Let_def ids io_return_def)
  have asset_a: "mustGetForeignAsset ?E ref_tokenId (ChainName ''bsc'') ?wa
                 = (Inr ref_wrapped, ?wa, ?asset)"
    by code_simp
  have asset_b: "mustGetForeignAsset ?E ref_tokenId (ChainName ''bsc'') ?wb
                 = (Inr ref_wrapped, ?wb, ?asset)"
    by code_simp
  have fmt: "context_formatAddress ?E ETH ref_wallet = Inr ref_wallet_bytes"
    by code_simp
  have nonce: "createNonce ?E \<lparr>rw_allowance = a, rw_nonce = n\<rparr>
               = (n, \<lparr>rw_allowance = a, rw_nonce = n + 1\<rparr>)" for a n
    by (simp add: ref_env_def)
  have sim_a: "contract_callStatic ?E ref_bridge (?tok 0) ?from ?wa1 = (Inr (), ?wa1)"
    by code_simp
  have sim_b: "contract_callStatic ?E ref_bridge (?tok 0) ?from ?wb1
               = (Inl (External ''insufficient allowance''), ?wb1)"
    by code_simp
  have sim_n: "contract_callStatic ?E ref_bridge (?nat 0) ?valfrom ?wb1 = (Inr (), ?wb1)"
    by code_simp
  have sim_r: "contract_callStatic ?E ref_bridge (CompleteTransfer [1, 2, 3]) no_overrides ref_world0
               = (Inr (), ref_world0)"
    by code_simp
  have sim_e: "contract_callStatic ?E ref_bridge (CompleteTransfer []) no_overrides ref_world0
               = (Inl (External ''invalid attestation''), ref_world0)"
    by code_simp
  have pop: "contract_populate ?E ref_bridge c ov w = (Inr (?tx c ov), w)" for c ov w
    by (simp add: ref_env_def)
  have w0: "ref_world0 = ?wb"
    by (simp add: ref_world0_def)
  have token_ok:
    "prepareSend ?E (Token ref_tokenId) ''500'' (ChainName ''bsc'') ref_wallet
       (ChainName ''ethereum'') ref_wallet (NumberV 0) no_overrides ?wa
     = (Inr (?tx (?tok 1) no_overrides), ?wa2,
        ?asset @ [(CallStatic ref_bridge (?tok 0) ?from, Succeeded),
                  (Populate ref_bridge (?tok 1) no_overrides, Succeeded)])"
    using dry_run_before_construction
      [where env = ?E and amount = "''500''" and amountBN = "BN 500"
         and sendingChain = "ChainName ''bsc''" and bridge = ref_bridge and t = ref_tokenId
         and recipientChain = "ChainName ''ethereum''" and recipientAddress = ref_wallet
         and w = ?wa and account = ref_wallet and ?w1.0 = ?wa and ?evs1.0 = "[]"
         and tokenAddr = ref_wrapped and ?w2.0 = ?wa and ?evs2.0 = ?asset
         and recipient = ref_wallet_bytes and nonce = 0 and ?w3.0 = ?wa1
         and relayerFee = "NumberV 0" and ov = no_overrides and senderAddress = ref_wallet
         and sim = "Inr ()" and ?w4.0 = ?wa1 and ?nonce2.0 = 1 and ?w5.0 = ?wa2
         and built = "Inr (?tx (?tok 1) no_overrides)" and ?w6.0 = ?wa2,
       THEN conjunct1]
      amount bridge acc_tok asset_a fmt sim_a
    by (simp add: ids ctx nonce pop outcome_of_def)
  have token_refused:
    "prepareSend ?E (Token ref_tokenId) ''500'' (ChainName ''bsc'') ref_wallet
       (ChainName ''ethereum'') ref_wallet (NumberV 0) no_overrides ?wb
     = (Inl (External ''insufficient allowance''), ?wb1,
        ?asset @ [(CallStatic ref_bridge (?tok 0) ?from, Failed)])"
    using dry_run_before_construction
      [where env = ?E and amount = "''500''" and amountBN = "BN 500"
         and sendingChain = "ChainName ''bsc''" and bridge = ref_bridge and t = ref_tokenId
         and recipientChain = "ChainName ''ethereum''" and recipientAddress = ref_wallet
         and w = ?wb and account = ref_wallet and ?w1.0 = ?wb and ?evs1.0 = "[]"
         and tokenAddr = ref_wrapped and ?w2.0 = ?wb and ?evs2.0 = ?asset
         and recipient = ref_wallet_bytes and nonce = 0 and ?w3.0 = ?wb1
         and relayerFee = "NumberV 0" and ov = no_overrides and senderAddress = ref_wallet
         and sim = "Inl (External ''insufficient allowance'')" and ?w4.0 = ?wb1
         and ?nonce2.0 = 1 and ?w5.0 = ?wb2
         and built = "Inr (?tx (?tok 1) no_overrides)" and ?w6.0 = ?wb2,
       THEN conjunct1]
      amount bridge acc_tok asset_b fmt sim_b
    by (simp add: ids ctx nonce pop)
  have native_ok:
    "prepareSend ?E NATIVE ''500'' (ChainName ''ethereum'') ref_wallet (ChainName ''bsc'')
       ref_wallet (NumberV 0) no_overrides ?wb
     = (Inr (?tx (?nat 1) ?val), ?wb2,
        [(CallStatic ref_bridge (?nat 0) ?valfrom, Succeeded),
         (Populate ref_bridge (?nat 1) ?val, Succeeded)])"
    using dry_run_before_construction
      [where env = ?E and amount = "''500''" and amountBN = "BN 500"
         and sendingChain = "ChainName ''ethereum''" and bridge = ref_bridge
         and recipientChain = "ChainName ''bsc''" and recipientAddress = ref_wallet
         and w = ?wb and account = ref_wallet and ?w1.0 = ?wb and ?evs1.0 = "[]"
         and recipient = ref_wallet_bytes and nonce = 0 and ?w3.0 = ?wb1
         and relayerFee = "NumberV 0" and ov = no_overrides and senderAddress = ref_wallet
         and sim = "Inr ()" and ?w4.0 = ?wb1 and ?nonce2.0 = 1 and ?w5.0 = ?wb2
         and built = "Inr (?tx (?nat 1) ?val)" and ?w6.0 = ?wb2,
       THEN conjunct2, THEN conjunct1]
      amount bridge acc_nat fmt sim_n
    by (simp add: ids ctx nonce pop outcome_of_def)
  have redeem_ok:
    "prepareRedeem ?E (ChainId 2) [1, 2, 3] no_overrides ref_world0
     = (Inr (?tx (CompleteTransfer [1, 2, 3]) no_overrides), ref_world0,
        [(CallStatic ref_bridge (CompleteTransfer [1, 2, 3]) no_overrides, Succeeded),
         (Populate ref_bridge (CompleteTransfer [1, 2, 3]) no_overrides, Succeeded)])"
    using dry_run_before_construction
      [where env = ?E and destChain = "ChainId 2" and destBridge = ref_bridge
         and signedVAA = "[1, 2, 3]" and ov = no_overrides and w = ref_world0
         and sim = "Inr ()" and ?w4.0 = ref_world0
         and built = "Inr (?tx (CompleteTransfer [1, 2, 3]) no_overrides)" and ?w6.0 = ref_world0,
       THEN conjunct2, THEN conjunct2, THEN conjunct1]
      bridge sim_r
    by (simp add: pop outcome_of_def)
  have redeem_refused:
    "prepareRedeem ?E (ChainId 2) [] no_overrides ref_world0
     = (Inl (External ''invalid attestation''), ref_world0,
        [(CallStatic ref_bridge (CompleteTransfer []) no_overrides, Failed)])"
    using dry_run_before_construction
      [where env = ?E and destChain = "ChainId 2" and destBridge = ref_bridge
         and signedVAA = "[]" and ov = no_overrides and w = ref_world0
         and sim = "Inl (External ''invalid attestation'')" and ?w4.0 = ref_world0
         and built = "Inr (?tx (CompleteTransfer []) no_overrides)" and ?w6.0 = ref_world0,
       THEN conjunct2, THEN conjunct2, THEN conjunct1]
      bridge sim_e
    by (simp add: pop)
  have precedes_send:
    "dry_run_precedes (\<lambda>ov. ov\<lparr>ov_from := Some ref_wallet\<rparr>) None
       (snd (snd (prepareSend ?E (Token ref_tokenId) ''500'' (ChainName ''bsc'') ref_wallet
          (ChainName ''ethereum'') ref_wallet (NumberV 0) no_overrides ?wa)))"
    using dry_run_before_construction
      [where env = ?E and token = "Token ref_tokenId" and amount = "''500''"
         and sendingChain = "ChainName ''bsc''" and senderAddress = ref_wallet
         and recipientChain = "ChainName ''ethereum''" and recipientAddress = ref_wallet
         and relayerFee = "NumberV 0" and ov = no_overrides and w = ?wa
         and r = "Inr (?tx (?tok 1) no_overrides)" and w' = ?wa2
         and evs = "?asset @ [(CallStatic ref_bridge (?tok 0) ?from, Succeeded),
                              (Populate ref_bridge (?tok 1) no_overrides, Succeeded)]",
       THEN conjunct2, THEN conjunct2, THEN conjunct2, THEN conjunct1]
      token_ok
    by simp
  have precedes_redeem:
    "dry_run_precedes (\<lambda>ov. ov) None
       (snd (snd (prepareRedeem ?E (ChainId 2) [1, 2, 3] no_overrides ref_world0)))"
    using dry_run_before_construction
      [where env = ?E and destChain = "ChainId 2" and signedVAA = "[1, 2, 3]"
         and ov = no_overrides and w = ref_world0
         and r = "Inr (?tx (CompleteTransfer [1, 2, 3]) no_overrides)" and w' = ref_world0
         and evs = "[(CallStatic ref_bridge (CompleteTransfer [1, 2, 3]) no_overrides, Succeeded),
                     (Populate ref_bridge (CompleteTransfer [1, 2, 3]) no_overrides, Succeeded)]",
       THEN conjunct2, THEN conjunct2, THEN conjunct2, THEN conjunct2]
      redeem_ok
    by simp
  from token_ok token_refused native_ok redeem_ok redeem_refused precedes_send precedes_redeem
  show ?thesis
    by (simp add: w0)
qed

text \<open>
  Claim C6. The relay transaction carries the amount to convert to native tokens
  (here 10) and 0 as the batching sentinel. But \<open>sendWithRelay\<close> makes no dry run:
  on the reference environment its trace goes from the approval straight to the
  construction of the transaction and its submission. The lemmas after it show
  that this is so in every environment.
\<close>

theorem sendWithRelay_makes_no_dry_run:
  "snd (snd (sendWithRelay (ref_env (ref_receipt [])) (Token ref_tokenId) ''500'' ''10''
      (ChainName ''ethereum'') ref_wallet (ChainName ''bsc'') ref_wallet no_overrides ref_world0))
   = [(SignerGetAddress ''wallet'', Succeeded),
      (Allowance ref_token ref_wallet ref_relayer, Succeeded),
      (Approve ref_token ''wallet'' ref_relayer (BigNumberV (BN 500)) no_overrides, Succeeded),
      (Wait ''0xbb'', Succeeded),
      (Populate ref_relayer
         (TransferTokensWithRelay ref_token (BN 500) (BN 10) 4 ref_wallet_bytes 0) no_overrides, Succeeded),
      (SendTransaction ''wallet''
         \<lparr>ptx_to = ref_relayer,
            ptx_call = TransferTokensWithRelay ref_token (BN 500) (BN 10) 4 ref_wallet_bytes 0,
            ptx_overrides = no_overrides\<rparr>, Succeeded),
      (Wait ''0xaa'', Succeeded)]"
  by code_simp

lemma prepareSendWithRelay_makes_no_dry_run:
  "prepareSendWithRelay env token amount toNativeToken sendingChain
      senderAddress recipientChain recipientAddress ov w = (r, w', evs)
   \<Longrightarrow> filter is_dry_run evs = []"
  by (cases token)
     (auto simp: prepareSendWithRelay_def mustGetForeignAsset_def getForeignAsset_def
        formatAssetAddress_def is_dry_run_def Let_def
        io_bind_def io_call_def io_lift_def io_return_def io_throw_def
      split: sum.splits prod.splits option.splits if_splits)

lemma mustGetForeignAsset_makes_no_dry_run:
  "mustGetForeignAsset env t chain w = (r, w', evs) \<Longrightarrow> filter is_dry_run evs = []"
  by (auto simp: mustGetForeignAsset_def getForeignAsset_def formatAssetAddress_def is_dry_run_def
        Let_def io_bind_def io_call_def io_lift_def io_return_def io_throw_def
      split: sum.splits prod.splits option.splits if_splits)

lemma approve_makes_no_dry_run:
  "approve env chain c t amount ov w = (r, w', evs) \<Longrightarrow> filter is_dry_run evs = []"
  unfolding approve_run
  by (auto simp: is_dry_run_def split: sum.splits prod.splits option.splits if_splits)

lemma io_call_no_dry_run:
  "io_call ev op w = (r, w', evs) \<Longrightarrow> \<not> is_dry_run (ev, Succeeded) \<Longrightarrow> filter is_dry_run evs = []"
  by (auto simp: io_call_def is_dry_run_def split: sum.splits prod.splits)

lemma sendWithRelay_makes_no_dry_run_at_all:
  assumes "sendWithRelay env token amount toNativeToken sendingChain senderAddress recipientChain
      recipientAddress ov w = (r, w', evs)"
  shows "filter is_dry_run evs = []"
proof (cases "getSigner env sendingChain")
  case None
  with assms show ?thesis
    by (simp add: sendWithRelay_def io_throw_def)
next
  case (Some signer)
  have approval: "filter is_dry_run evs0 = []"
    if "(case token of
           NATIVE \<Rightarrow> io_return ()
         | Token t \<Rightarrow>
             io_bind (io_lift (BigNumber_from (StringV amount))) (\<lambda>amountBN.
             io_bind (io_lift (mustGetTokenBridgeRelayer env sendingChain)) (\<lambda>relayer.
             io_bind (mustGetForeignAsset env t sendingChain) (\<lambda>tokenAddr.
             approve env sendingChain relayer tokenAddr (Some (BigNumberV amountBN)) ov)))) w0
        = (r0, w1, evs0)" for w0 r0 w1 evs0
    using that
    by (cases token)
       (auto simp: io_return_def io_lift_def
          elim!: io_bind_cases
          dest: mustGetForeignAsset_makes_no_dry_run approve_makes_no_dry_run)
  from assms Some show ?thesis
    unfolding sendWithRelay_def
    by (auto simp: is_dry_run_def
          elim!: io_bind_cases
          dest!: approval prepareSendWithRelay_makes_no_dry_run io_call_no_dry_run)
qed

subsection \<open>Messages of a transaction\<close>

lemma parseBridgeLog_gasFee:
  "parseBridgeLog env tx chain receipt gasFee bridge lg w = (Inr m, w', evs)
   \<Longrightarrow> message_gasFee m = gasFee"
  by (auto simp: parseBridgeLog_def parseAssetAddress_def message_gasFee_def Let_def
       io_bind_def io_call_def io_lift_def io_return_def io_throw_def
      split: sum.splits prod.splits if_splits)

lemma io_mapM_Cons_run:
  "io_mapM f (x # xs) w = (Inr ys, w', evs)
   \<Longrightarrow> \<exists>y zs w1 evs1 evs2.
         f x w = (Inr y, w1, evs1) \<and> io_mapM f xs w1 = (Inr zs, w', evs2)
         \<and> ys = y # zs \<and> evs = evs1 @ evs2"
  by (auto split: prod.splits sum.splits)

lemma io_mapM_list_all:
  assumes "\<And>x w r w' evs. f x w = (Inr r, w', evs) \<Longrightarrow> P r"
  shows "io_mapM f xs w = (Inr ys, w', evs) \<Longrightarrow> list_all P ys"
proof (induction xs arbitrary: w ys evs)
  case Nil
  then show ?case by (simp add: io_return_def)
next
  case (Cons x xs)
  from io_mapM_Cons_run [OF Cons.prems]
  obtain y zs w1 evs1 evs2 where head: "f x w = (Inr y, w1, evs1)"
    and tail: "io_mapM f xs w1 = (Inr zs, w', evs2)" and ys: "ys = y # zs"
    by blast
  from assms [OF head] Cons.IH [OF tail] ys show ?case
    by simp
qed

text \<open>
  Claim C9. When \<open>parseMessageFromTx\<close> returns messages for a receipt, each of
  them has the gas fee \<open>gasUsed * effectiveGasPrice\<close> if the receipt has both
  fields, and no gas fee if either is absent.
\<close>

theorem parseMessageFromTx_gasFee:
  assumes "mustGetProvider env chain = Inr provider"
    and "provider_getTransactionReceipt env provider tx w = (Inr (Some receipt), w1)"
    and "parseMessageFromTx env tx chain w = (Inr msgs, w', evs)"
  shows "(\<forall>gasUsed effectiveGasPrice.
            r_gasUsed receipt = Some gasUsed \<and> r_effectiveGasPrice receipt = Some effectiveGasPrice
            \<longrightarrow> list_all (\<lambda>m. message_gasFee m = Some (gasUsed * effectiveGasPrice)) msgs)
       \<and> (r_gasUsed receipt = None \<or> r_effectiveGasPrice receipt = None
            \<longrightarrow> list_all (\<lambda>m. message_gasFee m = None) msgs)"
proof -
  have all: "list_all (\<lambda>m. message_gasFee m = gasFee_of_receipt receipt) msgs"
    using assms
    by (auto simp: parseMessageFromTx_def Let_def io_bind_lift_Inr io_bind_def io_call_def
          io_lift_def io_throw_def
        split: sum.splits prod.splits
        intro: io_mapM_list_all [where P = "\<lambda>m. message_gasFee m = gasFee_of_receipt receipt"]
        dest: parseBridgeLog_gasFee)
  then show ?thesis
    by (auto simp: gasFee_of_receipt_def split: option.splits)
qed

theorem parseMessageFromTx_gasFee_witness:
  "length (projr (fst (parseMessageFromTx (ref_env (ref_receipt [ref_log (ref_payload 1)]))
      ''0xaa'' (ChainId 2) ref_world0))) = 1
   \<and> list_all (\<lambda>m. message_gasFee m = Some 630000)
        (projr (fst (parseMessageFromTx (ref_env (ref_receipt [ref_log (ref_payload 1)]))
          ''0xaa'' (ChainId 2) ref_world0)))
   \<and> length (projr (fst (parseMessageFromTx
        (ref_env ((ref_receipt [ref_log (ref_payload 1)])\<lparr>r_gasUsed := None\<rparr>))
        ''0xaa'' (ChainId 2) ref_world0))) = 1
   \<and> list_all (\<lambda>m. message_gasFee m = None)
        (projr (fst (parseMessageFromTx
          (ref_env ((ref_receipt [ref_log (ref_payload 1)])\<lparr>r_gasUsed := None\<rparr>))
          ''0xaa'' (ChainId 2) ref_world0)))"
proof -
  let ?R1 = "ref_receipt [ref_log (ref_payload 1)]"
  let ?R2 = "(ref_receipt [ref_log (ref_payload 1)])\<lparr>r_gasUsed := None\<rparr>"
  let ?run1 = "parseMessageFromTx (ref_env ?R1) ''0xaa'' (ChainId 2) ref_world0"
  let ?run2 = "parseMessageFromTx (ref_env ?R2) ''0xaa'' (ChainId 2) ref_world0"
  have p1: "mustGetProvider (ref_env ?R1) (ChainId 2) = Inr ''rpc''"
    by (simp add: ref_env_def)
  have p2: "mustGetProvider (ref_env ?R2) (ChainId 2) = Inr ''rpc''"
    by (simp add: ref_env_def)
  have rc1: "provider_getTransactionReceipt (ref_env ?R1) ''rpc'' ''0xaa'' ref_world0
               = (Inr (Some ?R1), ref_world0)"
    by (simp add: ref_env_def)
  have rc2: "provider_getTransactionReceipt (ref_env ?R2) ''rpc'' ''0xaa'' ref_world0
               = (Inr (Some ?R2), ref_world0)"
    by (simp add: ref_env_def)
  have "(case fst ?run1 of Inl e \<Rightarrow> 0 | Inr ms \<Rightarrow> length ms) = (1::nat)"
    by code_simp
  then have ok1: "fst ?run1 = Inr (projr (fst ?run1))" and len1: "length (projr (fst ?run1)) = 1"
    by (cases "fst ?run1"; simp)+
  have "(case fst ?run2 of Inl e \<Rightarrow> 0 | Inr ms \<Rightarrow> length ms) = (1::nat)"
    by code_simp
  then have ok2: "fst ?run2 = Inr (projr (fst ?run2))" and len2: "length (projr (fst ?run2)) = 1"
    by (cases "fst ?run2"; simp)+
  from ok1 have run1: "?run1 = (Inr (projr (fst ?run1)), fst (snd ?run1), snd (snd ?run1))"
    by (simp add: prod_eq_iff)
  from ok2 have run2: "?run2 = (Inr (projr (fst ?run2)), fst (snd ?run2), snd (snd ?run2))"
    by (simp add: prod_eq_iff)
  have gas1: "r_gasUsed ?R1 = Some 21000 \<and> r_effectiveGasPrice ?R1 = Some 30"
    by (simp add: ref_receipt_def)
  have gas2: "r_gasUsed ?R2 = None"
    by simp
  from parseMessageFromTx_gasFee [OF p1 rc1 run1] gas1
  have fee1: "list_all (\<lambda>m. message_gasFee m = Some (21000 * 30)) (projr (fst ?run1))"
    by blast
  from parseMessageFromTx_gasFee [OF p2 rc2 run2] gas2
  have fee2: "list_all (\<lambda>m. message_gasFee m = None) (projr (fst ?run2))"
    by blast
  from fee1 fee2 len1 len2 show ?thesis
    by simp
qed

lemma hex_char_nibbles:
  "list_all (\<lambda>n. (hex_char n = CHR ''0'') = (n = 0) \<and> (hex_char n = CHR ''1'') = (n = 1)) [0..<16]"
  by code_simp

lemma hex_char_0_1:
  assumes "n < 16"
  shows "(hex_char n = CHR ''0'') = (n = 0)" and "(hex_char n = CHR ''1'') = (n = 1)"
proof -
  from assms have "n \<in> set [0..<16]" by simp
  with hex_char_nibbles
  have "(hex_char n = CHR ''0'') = (n = 0) \<and> (hex_char n = CHR ''1'') = (n = 1)"
    unfolding list_all_iff by blast
  then show "(hex_char n = CHR ''0'') = (n = 0)" and "(hex_char n = CHR ''1'') = (n = 1)"
    by simp_all
qed

lemma byte_hex_01: "(byte_hex b = ''01'') = (b = 1)"
proof -
  have "unat b < 2 ^ LENGTH(8)"
    by (rule unsigned_less)
  then have "unat b < 256"
    by simp
  then have lt: "unat b div 16 < 16"
    by simp
  have "(byte_hex b = ''01'') = (unat b div 16 = 0 \<and> unat b mod 16 = 1)"
    by (simp add: byte_hex_def hex_char_0_1 lt)
  also have "\<dots> = (unat b = 1)"
    by presburger
  also have "\<dots> = (b = 1)"
    using word_unat_eq_iff [of b 1] by simp
  finally show ?thesis .
qed

lemma startsWith_hexlify_01:
  "startsWith (hexlify p) ''0x01'' = (\<exists>rest. p = 1 # rest)"
proof (cases p)
  case Nil
  then show ?thesis by (simp add: startsWith_def hexlify_def)
next
  case (Cons b rest)
  have "length (byte_hex b) = 2" by (simp add: byte_hex_def)
  then have "startsWith (hexlify p) ''0x01'' = (byte_hex b = ''01'')"
    using Cons by (simp add: startsWith_def hexlify_def byte_hex_def)
  with Cons show ?thesis by (simp add: byte_hex_01)
qed

text \<open>
  Claim C1. The decoding of one log branches on the first byte of the payload
  before anything else is read from it: the first call is to the decoder that the
  byte selects. A payload whose first byte is 1 is given to the bridge contract's
  decoder of transfers, and the result, if there is one, is a basic message. Every
  other payload is given to the contract's decoder of transfers with payload. That
  decoder accepts the payload id 3 only, so for a bridge contract that refuses
  every payload whose first byte is not 3 (the token bridge reverts with
  \<^verbatim>\<open>invalid Transfer\<close>): a payload whose first byte is 3 yields, if anything, a
  relayer message; and a payload with any other first byte than 1 and 3, or with
  no byte at all, ends in the contract's error after this one call, so that
  nothing is decoded from it. The result is an error or one message, never both.
\<close>

theorem parseBridgeLog_branches_on_first_byte:
  assumes "core_parseLog env lg = Inr parsed"
    and "\<And>p w0. \<not> (\<exists>rest. p = 3 # rest)
           \<Longrightarrow> isl (fst (bridge_parseTransferWithPayload env bridge p w0))"
    and "parseBridgeLog env tx chain receipt gasFee bridge lg w = (r, w', evs)"
  shows "((\<exists>rest. la_payload parsed = 1 # rest)
           \<longrightarrow> (\<exists>oc more. evs = (ParseTransfer bridge (la_payload parsed), oc) # more)
               \<and> (\<forall>m. r = Inr m \<longrightarrow> (\<exists>b. m = PM b)))
       \<and> ((\<exists>rest. la_payload parsed = 3 # rest)
           \<longrightarrow> (\<exists>oc more. evs = (ParseTransferWithPayload bridge (la_payload parsed), oc) # more)
               \<and> (\<forall>m. r = Inr m \<longrightarrow> (\<exists>b. m = PRM b)))
       \<and> (\<not> (\<exists>rest. la_payload parsed = 1 # rest) \<and> \<not> (\<exists>rest. la_payload parsed = 3 # rest)
           \<longrightarrow> (\<exists>e. bridge_parseTransferWithPayload env bridge (la_payload parsed) w = (Inl e, w')
                    \<and> r = Inl e)
               \<and> evs = [(ParseTransferWithPayload bridge (la_payload parsed), Failed)])
       \<and> (isl r \<longleftrightarrow> \<not> (\<exists>m. r = Inr m))"
proof (intro conjI impI)
  assume one: "\<exists>rest. la_payload parsed = 1 # rest"
  then have sw: "startsWith (hexlify (la_payload parsed)) ''0x01''"
    by (simp add: startsWith_hexlify_01)
  from assms(3)
  have "(\<exists>oc more. evs = (ParseTransfer bridge (la_payload parsed), oc) # more)
          \<and> (\<forall>m. r = Inr m \<longrightarrow> (\<exists>b. m = PM b))"
    unfolding parseBridgeLog_def assms(1) io_bind_lift_Inr Let_def
    by (auto simp: sw parseAssetAddress_def io_bind_def io_call_def io_lift_def io_return_def
        split: sum.splits prod.splits if_splits)
  then show "\<exists>oc more. evs = (ParseTransfer bridge (la_payload parsed), oc) # more"
    and "\<forall>m. r = Inr m \<longrightarrow> (\<exists>b. m = PM b)"
    by simp_all
next
  assume three: "\<exists>rest. la_payload parsed = 3 # rest"
  then have sw: "\<not> startsWith (hexlify (la_payload parsed)) ''0x01''"
    by (auto simp: startsWith_hexlify_01)
  from assms(3)
  have "(\<exists>oc more. evs = (ParseTransferWithPayload bridge (la_payload parsed), oc) # more)
          \<and> (\<forall>m. r = Inr m \<longrightarrow> (\<exists>b. m = PRM b))"
    unfolding parseBridgeLog_def assms(1) io_bind_lift_Inr Let_def
    by (auto simp: sw parseAssetAddress_def io_bind_def io_call_def io_lift_def io_return_def
        split: sum.splits prod.splits if_splits)
  then show "\<exists>oc more. evs = (ParseTransferWithPayload bridge (la_payload parsed), oc) # more"
    and "\<forall>m. r = Inr m \<longrightarrow> (\<exists>b. m = PRM b)"
    by simp_all
next
  assume other: "\<not> (\<exists>rest. la_payload parsed = 1 # rest)
                  \<and> \<not> (\<exists>rest. la_payload parsed = 3 # rest)"
  then have sw: "\<not> startsWith (hexlify (la_payload parsed)) ''0x01''"
    by (simp add: startsWith_hexlify_01)
  from other assms(2) [of "la_payload parsed" w]
  obtain e w1 where refused:
    "bridge_parseTransferWithPayload env bridge (la_payload parsed) w = (Inl e, w1)"
    by (cases "bridge_parseTransferWithPayload env bridge (la_payload parsed) w";
        cases "fst (bridge_parseTransferWithPayload env bridge (la_payload parsed) w)")
       auto
  from assms(3)
  have run: "r = Inl e \<and> w' = w1
             \<and> evs = [(ParseTransferWithPayload bridge (la_payload parsed), Failed)]"
    unfolding parseBridgeLog_def assms(1) io_bind_lift_Inr Let_def
    by (simp add: sw refused io_bind_def io_call_def)
  with refused
  show "\<exists>e. bridge_parseTransferWithPayload env bridge (la_payload parsed) w = (Inl e, w')
             \<and> r = Inl e"
    by simp
  from run show "evs = [(ParseTransferWithPayload bridge (la_payload parsed), Failed)]"
    by simp
next
  show "isl r \<longleftrightarrow> \<not> (\<exists>m. r = Inr m)"
    by (cases r) simp_all
qed

theorem parseBridgeLog_branches_on_first_byte_witness:
  "(\<exists>b. parseBridgeLog (ref_env (ref_receipt [])) ''0xaa'' (ChainId 2) (ref_receipt [])
           (Some 630000) ref_bridge (ref_log (ref_payload 1)) ref_world0
         = (Inr (PM b), ref_world0, [(ParseTransfer ref_bridge (ref_payload 1), Succeeded)]))
   \<and> (\<exists>b. parseBridgeLog (ref_env (ref_receipt [])) ''0xaa'' (ChainId 2) (ref_receipt [])
           (Some 630000) ref_bridge (ref_log (ref_payload 3 @ ref_relayer_bytes)) ref_world0
         = (Inr (PRM b), ref_world0,
            [(ParseTransferWithPayload ref_bridge (ref_payload 3 @ ref_relayer_bytes), Succeeded)]))
   \<and> parseBridgeLog (ref_env (ref_receipt [])) ''0xaa'' (ChainId 2) (ref_receipt [])
        (Some 630000) ref_bridge (ref_log (ref_payload 2 @ ref_relayer_bytes)) ref_world0
      = (Inl (External ''invalid Transfer''), ref_world0,
         [(ParseTransferWithPayload ref_bridge (ref_payload 2 @ ref_relayer_bytes), Failed)])"
proof -
  let ?E = "ref_env (ref_receipt [])"
  let ?p1 = "ref_payload 1"
  let ?p2 = "ref_payload 2 @ ref_relayer_bytes"
  let ?p3 = "ref_payload 3 @ ref_relayer_bytes"
  let ?run = "\<lambda>p. parseBridgeLog ?E ''0xaa'' (ChainId 2) (ref_receipt []) (Some 630000) ref_bridge
                 (ref_log p) ref_world0"
  have log: "core_parseLog ?E (ref_log p) = Inr \<lparr>la_sequence = 7, la_payload = p\<rparr>" for p
    by (simp add: ref_env_def ref_log_def arrayify_hexlify)
  have strict: "isl (fst (bridge_parseTransferWithPayload ?E ref_bridge p w0))"
    if "\<not> (\<exists>rest. p = 3 # rest)" for p w0
    using that by (cases p) (simp_all add: ref_env_def ref_parseTransferWithPayload_def)
  have split: "?run p = (fst (?run p), fst (snd (?run p)), snd (snd (?run p)))" for p
    by simp
  have first1: "\<exists>rest. la_payload \<lparr>la_sequence = 7, la_payload = ?p1\<rparr> = 1 # rest"
    by (simp add: ref_payload_def)
  have first3: "\<exists>rest. la_payload \<lparr>la_sequence = 7, la_payload = ?p3\<rparr> = 3 # rest"
    by (simp add: ref_payload_def)
  have first2: "\<not> (\<exists>rest. la_payload \<lparr>la_sequence = 7, la_payload = ?p2\<rparr> = 1 # rest)
                \<and> \<not> (\<exists>rest. la_payload \<lparr>la_sequence = 7, la_payload = ?p2\<rparr> = 3 # rest)"
    by (simp add: ref_payload_def)
  have ok1: "\<not> isl (fst (?run ?p1)) \<and> fst (snd (?run ?p1)) = ref_world0
             \<and> length (snd (snd (?run ?p1))) = 1 \<and> snd (hd (snd (snd (?run ?p1)))) = Succeeded"
    by code_simp
  have ok3: "\<not> isl (fst (?run ?p3)) \<and> fst (snd (?run ?p3)) = ref_world0
             \<and> length (snd (snd (?run ?p3))) = 1 \<and> snd (hd (snd (snd (?run ?p3)))) = Succeeded"
    by code_simp
  have refused2: "bridge_parseTransferWithPayload ?E ref_bridge ?p2 ref_world0
                  = (Inl (External ''invalid Transfer''), ref_world0)"
    by code_simp
  note t1 = parseBridgeLog_branches_on_first_byte [OF log strict split, of ?p1]
  note t2 = parseBridgeLog_branches_on_first_byte [OF log strict split, of ?p2]
  note t3 = parseBridgeLog_branches_on_first_byte [OF log strict split, of ?p3]
  from t1 first1 ok1
  have a: "\<exists>b. ?run ?p1 = (Inr (PM b), ref_world0, [(ParseTransfer ref_bridge ?p1, Succeeded)])"
    by (cases "fst (?run ?p1)"; cases "snd (snd (?run ?p1))") (auto simp: prod_eq_iff)
  from t3 first3 ok3
  have b: "\<exists>b. ?run ?p3
             = (Inr (PRM b), ref_world0, [(ParseTransferWithPayload ref_bridge ?p3, Succeeded)])"
    by (cases "fst (?run ?p3)"; cases "snd (snd (?run ?p3))") (auto simp: prod_eq_iff)
  from t2 first2 refused2
  have c: "?run ?p2 = (Inl (External ''invalid Transfer''), ref_world0,
                       [(ParseTransferWithPayload ref_bridge ?p2, Failed)])"
    by (auto simp: prod_eq_iff)
  from a b c show ?thesis
    by blast
qed

end
